theory Spec2Isabelle
  imports Complex_Main "HOL-Library.Product_Lexorder"
begin

section \<open>Data model of the scheduling engine (services/ga\_engine.py)\<close>

text \<open>
  A time slot is the pair \<open>(day, hour)\<close> the engine stores in its sets. A \<open>Gene\<close> is the
  dataclass of the engine: one scheduled session.
\<close>

type_synonym timeslot = "string \<times> int"

record Gene =
  batch_id :: string
  subject_name :: string
  faculty_id :: string
  room_id :: string
  day :: string
  hour :: int
  week_type :: string

text \<open>
  The engine keeps three \<open>collections.defaultdict(set)\<close>, keyed by faculty, batch and room
  identifier: a missing key reads as the empty set.
\<close>

type_synonym slot_sets = "string \<Rightarrow> timeslot set"

record slot_book =
  by_faculty :: slot_sets
  by_batch :: slot_sets
  by_room :: slot_sets

definition empty_book :: slot_book where
  "empty_book = \<lparr>by_faculty = (\<lambda>_. {}), by_batch = (\<lambda>_. {}), by_room = (\<lambda>_. {})\<rparr>"

text \<open>The three \<open>.add(timeslot)\<close> calls that follow the acceptance of a gene.\<close>

definition book_add :: "slot_book \<Rightarrow> Gene \<Rightarrow> slot_book" where
  "book_add b g =
     \<lparr>by_faculty = (by_faculty b)(faculty_id g := insert (day g, hour g) (by_faculty b (faculty_id g))),
      by_batch = (by_batch b)(batch_id g := insert (day g, hour g) (by_batch b (batch_id g))),
      by_room = (by_room b)(room_id g := insert (day g, hour g) (by_room b (room_id g)))\<rparr>"

definition book_conflict :: "slot_book \<Rightarrow> Gene \<Rightarrow> bool" where
  "book_conflict b g \<longleftrightarrow>
     (day g, hour g) \<in> by_faculty b (faculty_id g) \<or>
     (day g, hour g) \<in> by_batch b (batch_id g) \<or>
     (day g, hour g) \<in> by_room b (room_id g)"

text \<open>
  A schedule is feasible when no instructor, no cohort and no room is booked twice in one
  time slot.
\<close>

definition feasible :: "Gene list \<Rightarrow> bool" where
  "feasible s \<longleftrightarrow>
     distinct (map (\<lambda>g. (faculty_id g, day g, hour g)) s) \<and>
     distinct (map (\<lambda>g. (batch_id g, day g, hour g)) s) \<and>
     distinct (map (\<lambda>g. (room_id g, day g, hour g)) s)"

text \<open>
  A \<open>defaultdict(list)\<close> filled by \<open>d[k].append(v)\<close>: an association list in the order in
  which the keys were first seen (the iteration order of a Python dictionary).
\<close>

fun dict_append :: "'k \<Rightarrow> 'v \<Rightarrow> ('k \<times> 'v list) list \<Rightarrow> ('k \<times> 'v list) list" where
  "dict_append k v [] = [(k, [v])]"
| "dict_append k v ((k', vs) # rest) =
     (if k' = k then (k', vs @ [v]) # rest else (k', vs) # dict_append k v rest)"

section \<open>The input model builder: \<open>prepare_data\<close>\<close>

text \<open>
  The rows of the four data frames, with the columns \<open>prepare_data\<close> reads. The faculty
  frame is read from the \<open>Faculty\<close> table, whose \<open>is_available\<close> column is part of every
  row; \<open>max_hours_per_week\<close> is read with \<open>getattr(row, 'max_hours_per_week', 20)\<close>.
\<close>

record room_row =
  Class_ID :: string
  Capacity :: int
  Room_Type :: string

record faculty_row =
  Employee_ID :: string
  f_subject_name :: string
  max_hours_per_week :: "int option"
  is_available :: bool

record subject_row =
  s_name :: string
  credits :: int
  s_type :: string

record batch_row =
  department :: string
  level :: string
  semester :: string
  student_count :: int
  subjects :: string

record ClassInfo =
  cls_batch_id :: string
  cls_subject_name :: string
  cls_subject_type :: string
  cls_student_count :: int
  cls_credits :: int
  cls_hours_per_week :: int

record workload =
  max_hours :: int
  current_hours :: int

datatype error = KeyError | IndexError | ValueError | NameError | AttributeError

text \<open>
  \<open>s.split(',')\<close> and \<open>s.strip()\<close> on ASCII text: \<open>split\<close> cuts at every comma (the empty
  string gives one empty piece), \<open>strip\<close> removes the white space of \<open>str.isspace\<close> in
  the ASCII range at both ends.
\<close>

fun split_on :: "char \<Rightarrow> string \<Rightarrow> string list" where
  "split_on c [] = [[]]"
| "split_on c (x # xs) =
     (if x = c then [] # split_on c xs
      else (case split_on c xs of [] \<Rightarrow> [[x]] | w # ws \<Rightarrow> (x # w) # ws))"

definition is_space :: "char \<Rightarrow> bool" where
  "is_space ch \<longleftrightarrow>
     ch \<in> set [CHR '' '', CHR 0x09, CHR 0x0A, CHR 0x0B, CHR 0x0C, CHR 0x0D,
                CHR 0x1C, CHR 0x1D, CHR 0x1E, CHR 0x1F]"

definition strip :: "string \<Rightarrow> string" where
  "strip s = rev (dropWhile is_space (rev (dropWhile is_space s)))"

definition subject_list :: "string \<Rightarrow> string list" where
  "subject_list s = map strip (split_on CHR '','' s)"

text \<open>\<open>d.get(k, [])\<close> on a dictionary of lists kept as an association list.\<close>

definition dict_get :: "('k \<times> 'v list) list \<Rightarrow> 'k \<Rightarrow> 'v list" where
  "dict_get d k = (case map_of d k of None \<Rightarrow> [] | Some vs \<Rightarrow> vs)"

definition calculate_hours_per_week :: "int \<Rightarrow> string \<Rightarrow> int" where
  "calculate_hours_per_week cr subject_type =
     (if subject_type = ''Lab'' then min (cr * 2) 4
      else if cr \<ge> 4 then 3
      else if cr = 3 then 2
      else 1)"

text \<open>
  Python's \<open>min(xs, key=f)\<close> on a list that is not empty: the first element with the
  least key. \<open>min_by f best xs\<close> is the scan with \<open>best\<close> the least element so far.
\<close>

fun min_by :: "('a \<Rightarrow> int) \<Rightarrow> 'a \<Rightarrow> 'a list \<Rightarrow> 'a" where
  "min_by f best [] = best"
| "min_by f best (x # xs) = (if f x < f best then min_by f x xs else min_by f best xs)"

text \<open>
  The loop over the faculty rows: every subject of a row gets the employee appended in
  \<open>faculty_subject_map\<close>, and the employee's workload entry is (re)set to zero hours.
\<close>

definition faculty_step ::
  "(string \<times> string list) list \<times> (string \<rightharpoonup> workload) \<Rightarrow> faculty_row \<Rightarrow>
     (string \<times> string list) list \<times> (string \<rightharpoonup> workload)" where
  "faculty_step st row =
     (foldl (\<lambda>m subject. dict_append subject (Employee_ID row) m) (fst st)
        (subject_list (f_subject_name row)),
      (snd st)(Employee_ID row \<mapsto>
        \<lparr>max_hours = (case max_hours_per_week row of None \<Rightarrow> 20 | Some m \<Rightarrow> m),
         current_hours = 0\<rparr>))"

definition faculty_maps ::
  "faculty_row list \<Rightarrow> (string \<times> string list) list \<times> (string \<rightharpoonup> workload)" where
  "faculty_maps faculty_df = foldl faculty_step ([], Map.empty) faculty_df"

text \<open>
  The state of the loop over the batches and their subjects: \<open>classes_to_schedule\<close>,
  \<open>batch_subject_faculty_map\<close> and \<open>faculty_workload\<close>.
\<close>

record prep_state =
  ps_classes :: "ClassInfo list"
  ps_map :: "string \<times> string \<rightharpoonup> string"
  ps_workload :: "string \<rightharpoonup> workload"

definition batch_id_of :: "batch_row \<Rightarrow> string" where
  "batch_id_of batch = department batch @ ''-'' @ level batch @ ''-'' @ semester batch"

text \<open>
  The body of the inner loop, for one batch and one of its subject names. A subject
  that is not in the subject frame is skipped, and so is one without a qualified
  faculty. The key of \<open>min\<close> reads \<open>faculty_workload[f]['current_hours']\<close>, which raises
  \<open>KeyError\<close> for an employee without an entry.
\<close>

definition assign_subject ::
  "subject_row list \<Rightarrow> (string \<times> string list) list \<Rightarrow> prep_state \<Rightarrow> batch_row \<times> string \<Rightarrow>
     error + prep_state" where
  "assign_subject subjects_df fsm st pair =
     (let batch = fst pair; subject = snd pair
      in case find (\<lambda>s. s_name s = subject) subjects_df of
           None \<Rightarrow> Inr st
         | Some details \<Rightarrow>
             let hours_per_week = calculate_hours_per_week (credits details) (s_type details);
                 qualified_faculties = dict_get fsm subject
             in if qualified_faculties = [] then Inr st
                else if \<exists>f\<in>set qualified_faculties. ps_workload st f = None then Inl KeyError
                else
                  let best_faculty =
                        min_by (\<lambda>f. current_hours (the (ps_workload st f)))
                          (hd qualified_faculties) (tl qualified_faculties);
                      w = the (ps_workload st best_faculty)
                  in Inr \<lparr>ps_classes = ps_classes st @
                              replicate (nat hours_per_week)
                                \<lparr>cls_batch_id = batch_id_of batch, cls_subject_name = subject,
                                 cls_subject_type = s_type details,
                                 cls_student_count = student_count batch,
                                 cls_credits = credits details,
                                 cls_hours_per_week = hours_per_week\<rparr>,
                          ps_map = (ps_map st)((batch_id_of batch, subject) \<mapsto> best_faculty),
                          ps_workload = (ps_workload st)(best_faculty \<mapsto>
                              w\<lparr>current_hours := current_hours w + hours_per_week\<rparr>)\<rparr>)"

text \<open>A loop whose body can raise: the first error ends it.\<close>

fun fold_err :: "('s \<Rightarrow> 'a \<Rightarrow> error + 's) \<Rightarrow> 's \<Rightarrow> 'a list \<Rightarrow> error + 's" where
  "fold_err f st [] = Inr st"
| "fold_err f st (x # xs) = (case f st x of Inl e \<Rightarrow> Inl e | Inr st' \<Rightarrow> fold_err f st' xs)"

text \<open>The pairs the nested loops visit, in their order.\<close>

definition batch_subject_pairs :: "batch_row list \<Rightarrow> (batch_row \<times> string) list" where
  "batch_subject_pairs batches_df =
     concat (map (\<lambda>batch. map (\<lambda>subject. (batch, subject)) (subject_list (subjects batch)))
               batches_df)"

definition initial_prep :: "faculty_row list \<Rightarrow> prep_state" where
  "initial_prep faculty_df =
     \<lparr>ps_classes = [], ps_map = Map.empty, ps_workload = snd (faculty_maps faculty_df)\<rparr>"

record data =
  labs :: "room_row list"
  lecture_halls :: "room_row list"
  faculty_subject_map :: "(string \<times> string list) list"
  classes_to_schedule :: "ClassInfo list"
  batch_subject_faculty_map :: "string \<times> string \<rightharpoonup> string"
  faculty_workload :: "string \<rightharpoonup> workload"

text \<open>The state of the loop after it has visited the given pairs.\<close>

definition prepare_loop ::
  "faculty_row list \<Rightarrow> subject_row list \<Rightarrow> (batch_row \<times> string) list \<Rightarrow> error + prep_state" where
  "prepare_loop faculty_df subjects_df pairs =
     fold_err (assign_subject subjects_df (fst (faculty_maps faculty_df)))
       (initial_prep faculty_df) pairs"

definition prepare_data ::
  "batch_row list \<Rightarrow> room_row list \<Rightarrow> faculty_row list \<Rightarrow> subject_row list \<Rightarrow> error + data" where
  "prepare_data batches_df classrooms_df faculty_df subjects_df =
     (case prepare_loop faculty_df subjects_df (batch_subject_pairs batches_df) of
        Inl e \<Rightarrow> Inl e
      | Inr st \<Rightarrow>
          Inr \<lparr>labs = filter (\<lambda>r. Room_Type r = ''Laboratory'') classrooms_df,
               lecture_halls = filter (\<lambda>r. Room_Type r \<noteq> ''Laboratory'') classrooms_df,
               faculty_subject_map = fst (faculty_maps faculty_df),
               classes_to_schedule = ps_classes st,
               batch_subject_faculty_map = ps_map st,
               faculty_workload = ps_workload st\<rparr>)"

text \<open>
  A small instance: instructor T1, whose availability flag is off, teaches Math and
  Physics; instructor T2 teaches Math; one cohort takes both subjects.
\<close>

definition demo_faculty :: "faculty_row list" where
  "demo_faculty =
     [\<lparr>Employee_ID = ''T1'', f_subject_name = ''Math, Physics'', max_hours_per_week = None,
       is_available = False\<rparr>,
      \<lparr>Employee_ID = ''T2'', f_subject_name = ''Math'', max_hours_per_week = Some 18,
       is_available = True\<rparr>]"

definition demo_subjects :: "subject_row list" where
  "demo_subjects =
     [\<lparr>s_name = ''Math'', credits = 3, s_type = ''Theory''\<rparr>,
      \<lparr>s_name = ''Physics'', credits = 4, s_type = ''Theory''\<rparr>]"

definition demo_batch :: batch_row where
  "demo_batch =
     \<lparr>department = ''CS'', level = ''UG'', semester = ''1'', student_count = 30,
      subjects = ''Math, Physics''\<rparr>"

section \<open>The repair scan\<close>

text \<open>
  A chromosome is a Python list of references to \<open>Gene\<close> objects. The functions that only
  rearrange a chromosome are written over a list of references \<open>'r\<close> and a store
  \<open>h :: 'r \<Rightarrow> Gene\<close> that gives the object a reference points to; with \<open>h = id\<close> they
  work on a list of gene values.

  \<open>_repair_chromosome\<close>: the loop over the chromosome skips a gene whose time slot is
  already seen for its faculty, batch or room, and appends every other gene to
  \<open>repaired\<close>, recording its slot.
\<close>

fun repair_loop :: "('r \<Rightarrow> Gene) \<Rightarrow> slot_book \<Rightarrow> 'r list \<Rightarrow> 'r list" where
  "repair_loop h seen [] = []"
| "repair_loop h seen (r # rs) =
     (if book_conflict seen (h r) then repair_loop h seen rs
      else r # repair_loop h (book_add seen (h r)) rs)"

definition repair_chromosome :: "('r \<Rightarrow> Gene) \<Rightarrow> 'r list \<Rightarrow> 'r list" where
  "repair_chromosome h chromosome =
     (if chromosome = [] then chromosome else repair_loop h empty_book chromosome)"

section \<open>The random generator\<close>

text \<open>
  The engine draws from the generator of Python's \<open>random\<close> module. The model takes the
  raw outputs of the generator, in the order in which they are drawn, as a list (after
  its end every draw is 0), and maps a raw output into the range the call asks for:
  \<open>random()\<close> is a multiple of \<open>2\<^sup>-\<^sup>5\<^sup>3\<close> in \<open>[0, 1)\<close>, \<open>randint(a, b)\<close> an integer of
  \<open>[a, b]\<close>, \<open>choice\<close> an element of the list, and \<open>sample(xs, k)\<close> draws \<open>k\<close> positions
  one after the other from the shrinking pool, so that no position is taken twice.
\<close>

type_synonym rng = "int list"

definition next_draw :: "rng \<Rightarrow> int \<times> rng" where
  "next_draw g = (case g of [] \<Rightarrow> (0, []) | d # g' \<Rightarrow> (d, g'))"

definition random :: "rng \<Rightarrow> rat \<times> rng" where
  "random g = (let (d, g') = next_draw g
               in (of_int (d mod 9007199254740992) / 9007199254740992, g'))"

definition randbelow :: "nat \<Rightarrow> rng \<Rightarrow> nat \<times> rng" where
  "randbelow n g = (let (d, g') = next_draw g in (nat (d mod int n), g'))"

definition randint :: "int \<Rightarrow> int \<Rightarrow> rng \<Rightarrow> int \<times> rng" where
  "randint a b g = (let (k, g') = randbelow (nat (b - a + 1)) g in (a + int k, g'))"

definition choice :: "'a list \<Rightarrow> rng \<Rightarrow> 'a \<times> rng" where
  "choice xs g = (let (k, g') = randbelow (length xs) g in (xs ! k, g'))"

fun sample :: "'a list \<Rightarrow> nat \<Rightarrow> rng \<Rightarrow> 'a list \<times> rng" where
  "sample pool 0 g = ([], g)"
| "sample pool (Suc k) g =
     (let (j, g') = randbelow (length pool) g;
          (rest, g'') = sample (butlast (pool[j := last pool])) k g'
      in (pool ! j # rest, g''))"

section \<open>The chromosome constructor\<close>

text \<open>\<open>settings.DAYS\<close> and \<open>settings.HOURS_PER_DAY\<close> of config.py, and \<open>self.timeslots\<close>.\<close>

definition DAYS :: "string list" where
  "DAYS = [''Monday'', ''Tuesday'', ''Wednesday'', ''Thursday'', ''Friday'']"

definition HOURS_PER_DAY :: int where
  "HOURS_PER_DAY = 6"

definition timeslots :: "timeslot list" where
  "timeslots = concat (map (\<lambda>d. map (\<lambda>hr. (d, hr)) [1..HOURS_PER_DAY]) DAYS)"

definition get_preferred_slots :: "string \<Rightarrow> timeslot list" where
  "get_preferred_slots subject_type =
     (let all_slots = timeslots
      in if subject_type = ''Lab''
         then (let preferred = filter (\<lambda>slot. snd slot \<ge> 3) all_slots
               in preferred @ filter (\<lambda>slot. slot \<notin> set preferred) all_slots)
         else (let preferred = filter (\<lambda>slot. snd slot \<le> 3) all_slots
               in preferred @ filter (\<lambda>slot. slot \<notin> set preferred) all_slots))"

text \<open>
  \<open>_create_gene\<close>. The result is \<open>None\<close> when the pair has no pre-assigned faculty (or
  the empty string), when no room of the right kind is large enough, or when no slot is
  free. For every preferred slot that is free for the faculty and the batch, the first
  possible room that is free in that slot gives one candidate; \<open>random.choice\<close> picks
  among the candidates, and draws only when there is one.
\<close>

definition possible_rooms :: "ClassInfo \<Rightarrow> data \<Rightarrow> room_row list" where
  "possible_rooms class_info d =
     (if cls_subject_type class_info = ''Lab''
      then filter (\<lambda>r. Capacity r \<ge> cls_student_count class_info) (labs d)
      else filter (\<lambda>r. Capacity r \<ge> cls_student_count class_info) (lecture_halls d))"

definition available_slots ::
  "ClassInfo \<Rightarrow> string \<Rightarrow> slot_book \<Rightarrow> room_row list \<Rightarrow> (timeslot \<times> room_row) list" where
  "available_slots class_info fid used_slots rooms =
     concat (map (\<lambda>timeslot.
        if timeslot \<notin> by_faculty used_slots fid \<and>
           timeslot \<notin> by_batch used_slots (cls_batch_id class_info)
        then (case find (\<lambda>room. timeslot \<notin> by_room used_slots (Class_ID room)) rooms of
                None \<Rightarrow> [] | Some room \<Rightarrow> [(timeslot, room)])
        else [])
       (get_preferred_slots (cls_subject_type class_info)))"

definition create_gene :: "ClassInfo \<Rightarrow> slot_book \<Rightarrow> data \<Rightarrow> rng \<Rightarrow> Gene option \<times> rng" where
  "create_gene class_info used_slots d g =
     (case batch_subject_faculty_map d (cls_batch_id class_info, cls_subject_name class_info) of
        None \<Rightarrow> (None, g)
      | Some fid \<Rightarrow>
          if fid = [] then (None, g)
          else if possible_rooms class_info d = [] then (None, g)
          else
            let avail = available_slots class_info fid used_slots (possible_rooms class_info d)
            in if avail = [] then (None, g)
               else
                 let (pick, g') = choice avail g
                 in (Some \<lparr>batch_id = cls_batch_id class_info,
                           subject_name = cls_subject_name class_info,
                           faculty_id = fid,
                           room_id = Class_ID (snd pick),
                           day = fst (fst pick),
                           hour = snd (fst pick),
                           week_type = ''all''\<rparr>, g'))"

text \<open>
  \<open>create_chromosome\<close>. \<open>sorted\<close> calls its key once per class, in the order of the list,
  so one \<open>random()\<close> is drawn per class; the sort is stable and orders the keys
  \<open>(subject_type != 'Lab', -credits, random())\<close> lexicographically. The loop then places
  the classes one by one, marking the slot of every gene it obtains.
\<close>

fun sort_keys :: "ClassInfo list \<Rightarrow> rng \<Rightarrow> (bool \<times> int \<times> rat) list \<times> rng" where
  "sort_keys [] g = ([], g)"
| "sort_keys (x # xs) g =
     (let (u, g') = random g; (ks, g'') = sort_keys xs g'
      in ((cls_subject_type x \<noteq> ''Lab'', - cls_credits x, u) # ks, g''))"

fun create_loop :: "data \<Rightarrow> slot_book \<Rightarrow> ClassInfo list \<Rightarrow> rng \<Rightarrow> Gene list \<times> rng" where
  "create_loop d used_slots [] g = ([], g)"
| "create_loop d used_slots (class_info # classes) g =
     (case create_gene class_info used_slots d g of
        (None, g') \<Rightarrow> create_loop d used_slots classes g'
      | (Some gene, g') \<Rightarrow>
          (let (rest, g'') = create_loop d (book_add used_slots gene) classes g'
           in (gene # rest, g'')))"

definition create_chromosome :: "data \<Rightarrow> rng \<Rightarrow> Gene list \<times> rng" where
  "create_chromosome d g =
     (let (keys, g') = sort_keys (classes_to_schedule d) g;
          classes = map snd (sort_key fst (zip keys (classes_to_schedule d)))
      in create_loop d empty_book classes g')"

section \<open>The fitness evaluator\<close>

text \<open>
  \<open>settings.MAX_CONSECUTIVE_CLASSES\<close> of config.py, and the \<open>weights\<close> dictionary that
  \<open>calculate_fitness\<close> builds and passes on.
\<close>

definition MAX_CONSECUTIVE_CLASSES :: int where
  "MAX_CONSECUTIVE_CLASSES = 4"

record weights =
  hard_constraint :: int
  consecutive_gap :: int
  excessive_consecutive :: int
  faculty_overload :: int
  room_preference :: int
  time_preference :: int

definition fitness_weights :: weights where
  "fitness_weights =
     \<lparr>hard_constraint = 1000, consecutive_gap = 15, excessive_consecutive = 25,
      faculty_overload = 50, room_preference = 5, time_preference = 10\<rparr>"

definition slots_by_day :: "timeslot list \<Rightarrow> (string \<times> int list) list" where
  "slots_by_day slots = foldl (\<lambda>m (d, hr). dict_append d hr m) [] slots"

text \<open>
  The first loop over \<open>range(len(hours) - 1)\<close>: \<open>gap = hours[i+1] - hours[i] - 1\<close>, added
  with its weight when \<open>gap > 1\<close>.
\<close>

definition gap_penalty :: "weights \<Rightarrow> int list \<Rightarrow> int" where
  "gap_penalty w hours =
     foldl (\<lambda>penalty i.
              let gap = hours ! (i + 1) - hours ! i - 1
              in if gap > 1 then penalty + consecutive_gap w * gap else penalty)
       0 [0..<length hours - 1]"

text \<open>
  The second loop: the longest run of consecutive hours, kept in
  \<open>(consecutive_count, max_consecutive)\<close>.
\<close>

definition longest_run :: "int list \<Rightarrow> int" where
  "longest_run hours =
     (let (consecutive_count, max_consecutive) =
        foldl (\<lambda>(cc, mc) i.
                 if hours ! (i + 1) = hours ! i + 1 then (cc + 1, mc) else (1, max mc cc))
          (1, 0) [0..<length hours - 1]
      in max max_consecutive consecutive_count)"

definition consecutive_penalty :: "weights \<Rightarrow> int list \<Rightarrow> int" where
  "consecutive_penalty w hours =
     (if longest_run hours > MAX_CONSECUTIVE_CLASSES
      then excessive_consecutive w * (longest_run hours - MAX_CONSECUTIVE_CLASSES) else 0)"

text \<open>The body of the loop over the days: a day with at most one hour is skipped.\<close>

definition day_penalty :: "weights \<Rightarrow> int list \<Rightarrow> int" where
  "day_penalty w hours =
     (if length hours \<le> 1 then 0
      else gap_penalty w (sort hours) + consecutive_penalty w (sort hours))"

definition calculate_schedule_quality_penalty :: "timeslot list \<Rightarrow> weights \<Rightarrow> int" where
  "calculate_schedule_quality_penalty slots w =
     foldl (\<lambda>penalty (d, hours). penalty + day_penalty w hours) 0 (slots_by_day slots)"

text \<open>
  \<open>calculate_fitness\<close>. The three dictionaries of slots per faculty, batch and room; the
  hard-constraint penalty \<open>len(entity_slots) - len(set(entity_slots))\<close>; the quality
  penalty of every batch; and for every faculty the variance (\<open>numpy.var\<close>: the mean of
  the squared deviations) of the number of hours per day, over the days that faculty
  teaches on. The source computes in double precision; the model computes the same
  expressions in exact rational arithmetic.
\<close>

definition entity_slots :: "(Gene \<Rightarrow> string) \<Rightarrow> Gene list \<Rightarrow> (string \<times> timeslot list) list" where
  "entity_slots key genes = foldl (\<lambda>m g. dict_append (key g) (day g, hour g) m) [] genes"

definition double_booking :: "weights \<Rightarrow> (string \<times> timeslot list) list \<Rightarrow> int" where
  "double_booking w slots_dict =
     foldl (\<lambda>penalty (e, ss).
              if length (remdups ss) \<noteq> length ss
              then penalty + hard_constraint w * (int (length ss) - int (length (remdups ss)))
              else penalty)
       0 slots_dict"

fun count_day :: "string \<Rightarrow> (string \<times> int) list \<Rightarrow> (string \<times> int) list" where
  "count_day d [] = [(d, 1)]"
| "count_day d ((d', n) # rest) =
     (if d' = d then (d', n + 1) # rest else (d', n) # count_day d rest)"

definition daily_hours :: "timeslot list \<Rightarrow> int list" where
  "daily_hours slots = map snd (foldl (\<lambda>m (d, hr). count_day d m) [] slots)"

definition var :: "int list \<Rightarrow> rat" where
  "var xs =
     (let n = of_nat (length xs); mean = of_int (sum_list xs) / n
      in sum_list (map (\<lambda>x. (of_int x - mean) * (of_int x - mean)) xs) / n)"

definition calculate_fitness :: "('r \<Rightarrow> Gene) \<Rightarrow> 'r list \<Rightarrow> rat" where
  "calculate_fitness h chromosome =
     (if chromosome = [] then 0
      else
        let w = fitness_weights;
            genes = map h chromosome;
            faculty_slots = entity_slots faculty_id genes;
            batch_slots = entity_slots batch_id genes;
            room_slots = entity_slots room_id genes;
            hard = double_booking w faculty_slots + double_booking w batch_slots
                     + double_booking w room_slots;
            quality = foldl (\<lambda>p (b, slots). p + calculate_schedule_quality_penalty slots w)
                        0 batch_slots;
            balance = foldl (\<lambda>p (f, slots).
                         if daily_hours slots \<noteq> []
                         then p + of_int (faculty_overload w) * var (daily_hours slots) else p)
                        0 faculty_slots
        in 1 / (1 + (of_int hard + of_int quality + balance)))"

section \<open>The evolutionary engine\<close>

text \<open>
  \<open>GAConfig\<close>, with the defaults of config.py. The rates are floats in the source and
  exact rationals here.
\<close>

record GAConfig =
  population_size :: int
  max_generations :: int
  mutation_rate :: rat
  elitism_rate :: rat
  tournament_size :: int
  parallel_runs :: int

definition default_config :: GAConfig where
  "default_config =
     \<lparr>population_size = 100, max_generations = 100, mutation_rate = 2 / 100,
      elitism_rate = 5 / 100, tournament_size = 5, parallel_runs = 3\<rparr>"

text \<open>
  Python's \<open>max(xs, key=f)\<close> on a list that is not empty: the first element with the
  greatest key.
\<close>

fun max_by :: "('a \<Rightarrow> rat) \<Rightarrow> 'a \<Rightarrow> 'a list \<Rightarrow> 'a" where
  "max_by f best [] = best"
| "max_by f best (x # xs) = (if f x > f best then max_by f x xs else max_by f best xs)"

text \<open>
  \<open>tournament_selection\<close>. \<open>random.sample\<close> raises \<open>ValueError\<close> for a negative size, and
  \<open>max\<close> raises \<open>ValueError\<close> on an empty tournament.
\<close>

definition tournament_selection ::
  "GAConfig \<Rightarrow> (rat \<times> 'r list) list \<Rightarrow> rng \<Rightarrow> error + ('r list \<times> rng)" where
  "tournament_selection cfg population_fitness g =
     (let size = min (tournament_size cfg) (int (length population_fitness))
      in if size < 0 then Inl ValueError
         else
           let (tournament, g') = sample population_fitness (nat size) g
           in case tournament of
                [] \<Rightarrow> Inl ValueError
              | t # ts \<Rightarrow> Inr (snd (max_by fst t ts), g'))"

text \<open>
  \<open>crossover\<close>. The two early returns give a parent back as it is; otherwise the child
  \<open>parent1[:point1] + parent2[point1:point2] + parent1[point2:]\<close> is repaired. The
  child holds references to the gene objects of its parents.
\<close>

definition crossover :: "('r \<Rightarrow> Gene) \<Rightarrow> 'r list \<Rightarrow> 'r list \<Rightarrow> rng \<Rightarrow> 'r list \<times> rng" where
  "crossover h parent1 parent2 g =
     (if parent1 = [] \<or> parent2 = [] then (if parent1 \<noteq> [] then parent1 else parent2, g)
      else
        let min_len = min (length parent1) (length parent2)
        in if min_len < 2 then (parent1, g)
           else
             let (point1, g1) = randint 1 (int (min_len div 2)) g;
                 (point2, g2) = randint (int (min_len div 2)) (int min_len - 1) g1;
                 child = take (nat point1) parent1
                           @ drop (nat point1) (take (nat point2) parent2)
                           @ drop (nat point2) parent1
             in (repair_chromosome h child, g2))"

text \<open>
  \<open>mutate\<close>. \<open>chromosome.copy()\<close> copies the list, not the gene objects: the assignments
  to \<open>mutated[idx].day\<close> and \<open>mutated[idx].hour\<close> write to the object the reference
  points to, so the function returns the new store with the new chromosome. The swap
  evaluates both right-hand sides before it assigns, first the days, then the hours. An
  empty chromosome returns before \<open>random()\<close> is drawn.
\<close>

definition mutate ::
  "GAConfig \<Rightarrow> ('r \<Rightarrow> Gene) \<Rightarrow> 'r list \<Rightarrow> rng \<Rightarrow> ('r \<Rightarrow> Gene) \<times> 'r list \<times> rng" where
  "mutate cfg h chromosome g =
     (if chromosome = [] then (h, chromosome, g)
      else
        let (u, g1) = random g
        in if u > mutation_rate cfg then (h, chromosome, g1)
           else
             let mutated = chromosome;
                 (mutation_type, g2) = choice [''timeslot'', ''swap'', ''room''] g1
             in if mutation_type = ''timeslot'' then
                  let (idx, g3) = randint 0 (int (length mutated) - 1) g2;
                      (new_day, g4) = choice DAYS g3;
                      (new_hour, g5) = randint 1 HOURS_PER_DAY g4;
                      r = mutated ! nat idx;
                      h1 = h(r := (h r)\<lparr>day := new_day\<rparr>);
                      h2 = h1(r := (h1 r)\<lparr>hour := new_hour\<rparr>)
                  in (h2, repair_chromosome h2 mutated, g5)
                else if mutation_type = ''swap'' \<and> length mutated > 1 then
                  let (idxs, g3) = sample [0..<length mutated] 2 g2;
                      r1 = mutated ! (idxs ! 0);
                      r2 = mutated ! (idxs ! 1);
                      d1 = day (h r1); d2 = day (h r2);
                      h1 = h(r1 := (h r1)\<lparr>day := d2\<rparr>);
                      h2 = h1(r2 := (h1 r2)\<lparr>day := d1\<rparr>);
                      e1 = hour (h2 r1); e2 = hour (h2 r2);
                      h3 = h2(r1 := (h2 r1)\<lparr>hour := e2\<rparr>);
                      h4 = h3(r2 := (h3 r2)\<lparr>hour := e1\<rparr>)
                  in (h4, repair_chromosome h4 mutated, g3)
                else (h, repair_chromosome h mutated, g2))"

text \<open>
  The gene objects of the engine live in a store from addresses to genes. A chromosome
  that \<open>create_chromosome\<close> returns consists of new objects: they are put at the next
  free addresses.
\<close>

type_synonym store = "nat \<Rightarrow> Gene"

fun new_genes :: "store \<Rightarrow> nat \<Rightarrow> Gene list \<Rightarrow> store \<times> nat list" where
  "new_genes h free [] = (h, [])"
| "new_genes h free (gn # gs) =
     (let (h', refs) = new_genes (h(free := gn)) (Suc free) gs in (h', free # refs))"

fun initial_population ::
  "nat \<Rightarrow> data \<Rightarrow> store \<Rightarrow> nat \<Rightarrow> rng \<Rightarrow> nat list list \<times> store \<times> nat \<times> rng" where
  "initial_population 0 d h free g = ([], h, free, g)"
| "initial_population (Suc n) d h free g =
     (let (genes, g1) = create_chromosome d g;
          (h1, refs) = new_genes h free genes;
          (rest, h2, free2, g2) = initial_population n d h1 (free + length genes) g1
      in (refs # rest, h2, free2, g2))"

text \<open>
  The loop \<open>while len(next_population) < population_size\<close>, with the number of children
  still to produce as its counter: two tournaments, crossover, mutation, append.
\<close>

fun offspring ::
  "nat \<Rightarrow> GAConfig \<Rightarrow> (rat \<times> nat list) list \<Rightarrow> store \<Rightarrow> nat list list \<Rightarrow> rng \<Rightarrow>
     error + (store \<times> nat list list \<times> rng)" where
  "offspring 0 cfg population_fitness h next_population g = Inr (h, next_population, g)"
| "offspring (Suc n) cfg population_fitness h next_population g =
     (case tournament_selection cfg population_fitness g of
        Inl e \<Rightarrow> Inl e
      | Inr (parent1, g1) \<Rightarrow>
          (case tournament_selection cfg population_fitness g1 of
             Inl e \<Rightarrow> Inl e
           | Inr (parent2, g2) \<Rightarrow>
               (let (child, g3) = crossover h parent1 parent2 g2;
                    (h', child', g4) = mutate cfg h child g3
                in offspring n cfg population_fitness h' (next_population @ [child']) g4)))"

text \<open>
  The state of \<open>run_evolution\<close> between generations. \<open>es_population_fitness\<close> is \<open>None\<close>
  as long as the variable \<open>population_fitness\<close> is unbound, and \<open>es_best_chromosome\<close> is
  \<open>None\<close> as long as no chromosome was saved.
\<close>

record evo_state =
  es_store :: store
  es_rng :: rng
  es_config :: GAConfig
  es_population :: "nat list list"
  es_population_fitness :: "(rat \<times> nat list) list option"
  es_best_fitness :: rat
  es_best_chromosome :: "nat list option"
  es_without_improvement :: int
  es_fitness_history :: "rat list"

text \<open>\<open>int(x)\<close> truncates towards zero; \<open>xs[:k]\<close> with a negative \<open>k\<close> counts from the end.\<close>

definition py_int :: "rat \<Rightarrow> int" where
  "py_int x = (if x \<ge> 0 then \<lfloor>x\<rfloor> else \<lceil>x\<rceil>)"

definition py_take :: "int \<Rightarrow> 'a list \<Rightarrow> 'a list" where
  "py_take k xs = (if k \<ge> 0 then take (nat k) xs else take (nat (int (length xs) + k)) xs)"

text \<open>
  One pass of the loop \<open>for generation in range(max_generations)\<close>. The result says
  whether the pass ended in \<open>break\<close>. The population is sorted by fitness, greatest
  first, by a stable sort; \<open>population_fitness[0]\<close> raises \<open>IndexError\<close> on an empty
  population. \<open>population_fitness[0][1].copy()\<close> saves a copy of the list of the best
  chromosome: the same references, hence the same gene objects. The elite are the
  first chromosomes of the sorted list themselves. The pass has no input but the state
  of the engine: the source takes no cancellation signal. The progress callback, when
  one is given, is called after the best chromosome is saved and is taken to return.
\<close>

definition generation :: "evo_state \<Rightarrow> error + (bool \<times> evo_state)" where
  "generation st =
     (let h = es_store st;
          population_fitness =
            sort_key (\<lambda>x. - fst x) (map (\<lambda>chromo. (calculate_fitness h chromo, chromo)) (es_population st))
      in case population_fitness of
           [] \<Rightarrow> Inl IndexError
         | (current_best_fitness, best_now) # rest \<Rightarrow>
             let st1 = st\<lparr>es_population_fitness := Some population_fitness,
                          es_fitness_history := es_fitness_history st @ [current_best_fitness]\<rparr>;
                 st2 = (if current_best_fitness > es_best_fitness st1
                        then st1\<lparr>es_best_fitness := current_best_fitness,
                                 es_best_chromosome := Some best_now,
                                 es_without_improvement := 0\<rparr>
                        else st1\<lparr>es_without_improvement := es_without_improvement st1 + 1\<rparr>)
             in if current_best_fitness \<ge> 99 / 100 then Inr (True, st2)
                else
                  let cfg = (if es_without_improvement st2 > 20
                             then (es_config st2)\<lparr>mutation_rate :=
                                     min (1 / 10) (mutation_rate (es_config st2) * (11 / 10))\<rparr>
                             else es_config st2);
                      elite_count = py_int (of_int (population_size cfg) * elitism_rate cfg);
                      elites = map snd (py_take elite_count population_fitness)
                  in case offspring (nat (population_size cfg - int (length elites))) cfg
                            population_fitness h elites (es_rng st2) of
                       Inl e \<Rightarrow> Inl e
                     | Inr (h', next_population, g') \<Rightarrow>
                         Inr (False, st2\<lparr>es_store := h', es_rng := g', es_config := cfg,
                                         es_population := next_population\<rparr>))"

fun evolve :: "nat \<Rightarrow> evo_state \<Rightarrow> error + evo_state" where
  "evolve 0 st = Inr st"
| "evolve (Suc n) st =
     (case generation st of
        Inl e \<Rightarrow> Inl e
      | Inr (stop, st') \<Rightarrow> if stop then Inr st' else evolve n st')"

text \<open>
  \<open>run_evolution\<close> on a new engine instance (an empty fitness history). \<open>db\<close> says whether
  a database session is passed: \<open>db.close()\<close> after the loop is not under \<open>if db\<close>, so
  without a session it raises \<open>AttributeError\<close>. \<open>best_chromosome or
  population_fitness[0][1]\<close> takes the saved chromosome unless it is \<open>None\<close> or empty;
  \<open>population_fitness\<close> is unbound when the loop made no pass. The configuration in the
  result is the \<open>GAConfig\<close> object of the caller after the run.
\<close>

record evolution_result =
  er_chromosome :: "nat list"
  er_store :: store
  er_rng :: rng
  er_config :: GAConfig
  er_fitness_history :: "rat list"

definition falsy :: "nat list option \<Rightarrow> bool" where
  "falsy c = (case c of None \<Rightarrow> True | Some xs \<Rightarrow> xs = [])"

definition run_evolution ::
  "GAConfig \<Rightarrow> data \<Rightarrow> bool \<Rightarrow> store \<Rightarrow> nat \<Rightarrow> rng \<Rightarrow> error + evolution_result" where
  "run_evolution cfg d db h free g =
     (let (population, h0, free0, g0) = initial_population (nat (population_size cfg)) d h free g
      in case evolve (nat (max_generations cfg))
                \<lparr>es_store = h0, es_rng = g0, es_config = cfg, es_population = population,
                 es_population_fitness = None, es_best_fitness = 0, es_best_chromosome = None,
                 es_without_improvement = 0, es_fitness_history = []\<rparr> of
           Inl e \<Rightarrow> Inl e
         | Inr st \<Rightarrow>
             if \<not> db then Inl AttributeError
             else if \<not> falsy (es_best_chromosome st)
             then Inr \<lparr>er_chromosome = the (es_best_chromosome st), er_store = es_store st,
                       er_rng = es_rng st, er_config = es_config st,
                       er_fitness_history = es_fitness_history st\<rparr>
             else (case es_population_fitness st of
                     None \<Rightarrow> Inl NameError
                   | Some [] \<Rightarrow> Inl IndexError
                   | Some ((f, chromo) # rest) \<Rightarrow>
                       Inr \<lparr>er_chromosome = chromo, er_store = es_store st,
                            er_rng = es_rng st, er_config = es_config st,
                            er_fitness_history = es_fitness_history st\<rparr>))"

text \<open>
  \<open>run_single_ga\<close> of \<open>generate_multiple_solutions\<close>. \<open>g\<close> is the generator as
  \<open>random.seed(seed)\<close> leaves it. The engine is built on \<open>self.config\<close>, the one
  \<open>GAConfig\<close> object of the optimizer, so the configuration after the run is part of the
  result. The schedule is the list of the genes the best chromosome points to.
\<close>

record ga_result =
  ga_schedule :: "Gene list"
  ga_fitness :: rat
  ga_fitness_history :: "rat list"
  ga_config :: GAConfig

definition run_single_ga ::
  "GAConfig \<Rightarrow> batch_row list \<Rightarrow> room_row list \<Rightarrow> faculty_row list \<Rightarrow> subject_row list \<Rightarrow>
     bool \<Rightarrow> store \<Rightarrow> nat \<Rightarrow> rng \<Rightarrow> error + ga_result" where
  "run_single_ga cfg batches_df classrooms_df faculty_df subjects_df db h free g =
     (case prepare_data batches_df classrooms_df faculty_df subjects_df of
        Inl e \<Rightarrow> Inl e
      | Inr d \<Rightarrow>
          (case run_evolution cfg d db h free g of
             Inl e \<Rightarrow> Inl e
           | Inr r \<Rightarrow>
               Inr \<lparr>ga_schedule = map (er_store r) (er_chromosome r),
                    ga_fitness = calculate_fitness (er_store r) (er_chromosome r),
                    ga_fitness_history = er_fitness_history r,
                    ga_config = er_config r\<rparr>))"

section \<open>The repair optimiser (services/optimization.py)\<close>

text \<open>
  The rows of the tables the service reads and writes: \<open>Timetable\<close>, \<open>Batch\<close>,
  \<open>Classroom\<close> and \<open>TeacherLeave\<close> of database/model.py, with the columns the service
  uses. A query with \<open>.all()\<close> is a \<open>filter\<close> over the table, one with \<open>.first()\<close> is
  \<open>find\<close>; an assignment to a column of a selected row rewrites that row of the table.
\<close>

record Timetable =
  tt_id :: int
  tt_version_id :: string
  tt_batch_id :: string
  tt_subject_name :: string
  tt_faculty_id :: string
  tt_room_id :: string
  tt_day :: string
  tt_hour :: int
  tt_week_type :: string
  tt_status :: string

record Batch =
  b_batch_id :: string
  b_student_count :: int

record Classroom =
  c_class_id :: string
  c_capacity :: int
  c_room_type :: string

record database =
  timetables :: "Timetable list"
  batches :: "Batch list"
  classrooms :: "Classroom list"
  teacher_leaves :: "int list"

text \<open>
  What a handler leaves in its \<open>OptimizationLog\<close> row: the handler returned before it
  wrote a row, the row is still \<open>running\<close>, it is \<open>completed\<close> (with the number \<open>n\<close> of
  the message "Capacity issues for n entries" when there is one), or it is \<open>failed\<close>
  with the text of the exception.
\<close>

datatype log_status = No_log | Running | Completed "nat option" | Failed string

text \<open>
  \<open>_check_substitute_availability\<close>: the set of the \<open>(day, hour)\<close> of the substitute's
  active rows, and the loop over the affected rows that returns \<open>False\<close> at the first
  one whose slot is in the set.
\<close>

definition occupied_slots :: "Timetable list \<Rightarrow> string \<Rightarrow> timeslot set" where
  "occupied_slots tts substitute_faculty_id =
     set (map (\<lambda>e. (tt_day e, tt_hour e))
            (filter (\<lambda>e. tt_faculty_id e = substitute_faculty_id \<and> tt_status e = ''active'') tts))"

fun no_conflict :: "timeslot set \<Rightarrow> Timetable list \<Rightarrow> bool" where
  "no_conflict occupied [] = True"
| "no_conflict occupied (e # es) =
     (if (tt_day e, tt_hour e) \<in> occupied then False else no_conflict occupied es)"

definition check_substitute_availability :: "string \<Rightarrow> Timetable list \<Rightarrow> database \<Rightarrow> bool" where
  "check_substitute_availability substitute_faculty_id affected_entries db =
     no_conflict (occupied_slots (timetables db) substitute_faculty_id) affected_entries"

text \<open>
  \<open>handle_teacher_leave_optimization\<close>. \<open>notify\<close> is the outcome of the notification sent
  after the rows are committed: \<open>None\<close> when it returns, the text of the exception when it
  raises. The result is the database and the state of the log row.
\<close>

definition affected_by_faculty :: "string \<Rightarrow> Timetable \<Rightarrow> bool" where
  "affected_by_faculty original_faculty_id e \<longleftrightarrow>
     tt_faculty_id e = original_faculty_id \<and> tt_status e = ''active''"

definition handle_teacher_leave_optimization ::
  "database \<Rightarrow> int \<Rightarrow> string \<Rightarrow> string \<Rightarrow> string option \<Rightarrow> database \<times> log_status" where
  "handle_teacher_leave_optimization db leave_id original_faculty_id substitute_faculty_id notify =
     (if leave_id \<notin> set (teacher_leaves db) then (db, No_log)
      else
        let affected_entries = filter (affected_by_faculty original_faculty_id) (timetables db)
        in if affected_entries = [] then (db, Running)
           else if \<not> check_substitute_availability substitute_faculty_id affected_entries db
           then (db, Failed ''Substitute teacher has scheduling conflicts'')
           else
             let db' = db\<lparr>timetables :=
                    map (\<lambda>e. if affected_by_faculty original_faculty_id e
                              then e\<lparr>tt_faculty_id := substitute_faculty_id\<rparr> else e)
                      (timetables db)\<rparr>
             in (case notify of None \<Rightarrow> (db', Completed None) | Some msg \<Rightarrow> (db', Failed msg)))"

text \<open>
  \<open>optimize_for_room_change\<close>. The affected rows are the active rows of the old room,
  restricted to \<open>affected_batches\<close> when that list is given and not empty. The loop over
  them looks the batch of a row up; a row whose batch is found and has more students
  than the new room holds is recorded in \<open>capacity_issues\<close> and skipped by \<open>continue\<close>;
  every other affected row gets the new room and is counted in \<open>success_count\<close>. The
  loop below walks the table in its order and leaves the rows that are not affected as
  they are. The handler broadcasts \<open>success_count\<close> and \<open>capacity_issues\<close>.
\<close>

record capacity_issue =
  ci_batch_id :: string
  ci_student_count :: int
  ci_room_capacity :: int

definition affected_by_room :: "string \<Rightarrow> string list option \<Rightarrow> Timetable \<Rightarrow> bool" where
  "affected_by_room old_room_id affected_batches e \<longleftrightarrow>
     tt_room_id e = old_room_id \<and> tt_status e = ''active'' \<and>
     (case affected_batches of None \<Rightarrow> True
      | Some bs \<Rightarrow> bs = [] \<or> tt_batch_id e \<in> set bs)"

fun room_change_loop ::
  "Batch list \<Rightarrow> Classroom \<Rightarrow> string \<Rightarrow> (Timetable \<Rightarrow> bool) \<Rightarrow> Timetable list \<Rightarrow>
     Timetable list \<times> nat \<times> capacity_issue list" where
  "room_change_loop bs new_room new_room_id affected [] = ([], 0, [])"
| "room_change_loop bs new_room new_room_id affected (e # es) =
     (let (es', success_count, capacity_issues) =
            room_change_loop bs new_room new_room_id affected es
      in if \<not> affected e then (e # es', success_count, capacity_issues)
         else
           (case find (\<lambda>b. b_batch_id b = tt_batch_id e) bs of
              Some batch \<Rightarrow>
                if b_student_count batch > c_capacity new_room
                then (e # es', success_count,
                      \<lparr>ci_batch_id = tt_batch_id e, ci_student_count = b_student_count batch,
                       ci_room_capacity = c_capacity new_room\<rparr> # capacity_issues)
                else (e\<lparr>tt_room_id := new_room_id\<rparr> # es', success_count + 1, capacity_issues)
            | None \<Rightarrow> (e\<lparr>tt_room_id := new_room_id\<rparr> # es', success_count + 1, capacity_issues)))"

record room_change_result =
  rc_db :: database
  rc_log :: log_status
  rc_success_count :: nat
  rc_capacity_issues :: "capacity_issue list"

definition optimize_for_room_change ::
  "database \<Rightarrow> string \<Rightarrow> string \<Rightarrow> string list option \<Rightarrow> string option \<Rightarrow> room_change_result" where
  "optimize_for_room_change db old_room_id new_room_id affected_batches notify =
     (case find (\<lambda>c. c_class_id c = new_room_id) (classrooms db) of
        None \<Rightarrow>
          \<lparr>rc_db = db, rc_log = Failed (''New room '' @ new_room_id @ '' not found''),
           rc_success_count = 0, rc_capacity_issues = []\<rparr>
      | Some new_room \<Rightarrow>
          let (tts', success_count, capacity_issues) =
                room_change_loop (batches db) new_room new_room_id
                  (affected_by_room old_room_id affected_batches) (timetables db)
          in \<lparr>rc_db = db\<lparr>timetables := tts'\<rparr>,
              rc_log = (case notify of
                          None \<Rightarrow> Completed (if capacity_issues = [] then None
                                              else Some (length capacity_issues))
                        | Some msg \<Rightarrow> Failed msg),
              rc_success_count = success_count,
              rc_capacity_issues = capacity_issues\<rparr>)"

text \<open>
  \<open>_handle_room_emergency\<close>: for the \<open>i\<close>-th unavailable room, the active rows of that
  room are queried from the current state of the table. With a replacement room that
  exists, a row moves there when its batch is not found or fits, and its status becomes
  \<open>cancelled\<close> otherwise; with no replacement given, or one that does not exist, every
  affected row is cancelled. The handler returns nothing.
\<close>

definition emergency_entry :: "Batch list \<Rightarrow> Classroom \<Rightarrow> string \<Rightarrow> Timetable \<Rightarrow> Timetable" where
  "emergency_entry bs replacement_room replacement_room_id e =
     (case find (\<lambda>b. b_batch_id b = tt_batch_id e) bs of
        None \<Rightarrow> e\<lparr>tt_room_id := replacement_room_id\<rparr>
      | Some batch \<Rightarrow>
          if b_student_count batch \<le> c_capacity replacement_room
          then e\<lparr>tt_room_id := replacement_room_id\<rparr>
          else e\<lparr>tt_status := ''cancelled''\<rparr>)"

definition room_emergency_step :: "database \<Rightarrow> string \<Rightarrow> string option \<Rightarrow> database" where
  "room_emergency_step db rid replacement =
     (let affected = (\<lambda>e. tt_room_id e = rid \<and> tt_status e = ''active'')
      in case replacement of
           None \<Rightarrow>
             db\<lparr>timetables := map (\<lambda>e. if affected e then e\<lparr>tt_status := ''cancelled''\<rparr> else e)
                                 (timetables db)\<rparr>
         | Some replacement_room_id \<Rightarrow>
             (case find (\<lambda>c. c_class_id c = replacement_room_id) (classrooms db) of
                None \<Rightarrow>
                  db\<lparr>timetables := map (\<lambda>e. if affected e then e\<lparr>tt_status := ''cancelled''\<rparr> else e)
                                      (timetables db)\<rparr>
              | Some replacement_room \<Rightarrow>
                  db\<lparr>timetables :=
                       map (\<lambda>e. if affected e
                                 then emergency_entry (batches db) replacement_room replacement_room_id e
                                 else e)
                         (timetables db)\<rparr>))"

fun room_emergency_loop :: "database \<Rightarrow> nat \<Rightarrow> string list \<Rightarrow> string list option \<Rightarrow> database" where
  "room_emergency_loop db i [] replacement_room_ids = db"
| "room_emergency_loop db i (rid # rids) replacement_room_ids =
     room_emergency_loop
       (room_emergency_step db rid
          (case replacement_room_ids of
             None \<Rightarrow> None
           | Some rs \<Rightarrow> if rs \<noteq> [] \<and> i < length rs then Some (rs ! i) else None))
       (i + 1) rids replacement_room_ids"

definition handle_room_emergency :: "string list \<Rightarrow> string list option \<Rightarrow> database \<Rightarrow> database" where
  "handle_room_emergency room_ids replacement_room_ids db =
     room_emergency_loop db 0 room_ids replacement_room_ids"

text \<open>
  The condition of the room claims: the cohort of a row is known and has more students
  than the room holds.
\<close>

definition exceeds_capacity :: "Batch list \<Rightarrow> Classroom \<Rightarrow> Timetable \<Rightarrow> bool" where
  "exceeds_capacity bs room e \<longleftrightarrow>
     (case find (\<lambda>b. b_batch_id b = tt_batch_id e) bs of
        None \<Rightarrow> False
      | Some batch \<Rightarrow> b_student_count batch > c_capacity room)"

text \<open>
  Two small databases. In \<open>leave_db\<close> instructor A teaches on Monday at 1 and at 2, and
  instructor B teaches another cohort on Monday at 1; instructor C teaches on Tuesday.
  In \<open>room_db\<close> a cohort of 60 and a cohort of 20 sit in the large room.
\<close>

definition entry :: "int \<Rightarrow> string \<Rightarrow> string \<Rightarrow> string \<Rightarrow> string \<Rightarrow> int \<Rightarrow> Timetable" where
  "entry i b f r d hr =
     \<lparr>tt_id = i, tt_version_id = ''v'', tt_batch_id = b, tt_subject_name = ''Math'',
      tt_faculty_id = f, tt_room_id = r, tt_day = d, tt_hour = hr, tt_week_type = ''all'',
      tt_status = ''active''\<rparr>"

definition leave_db :: database where
  "leave_db =
     \<lparr>timetables = [entry 1 ''X'' ''A'' ''R1'' ''Mon'' 1, entry 2 ''X'' ''A'' ''R1'' ''Mon'' 2,
                     entry 3 ''Y'' ''B'' ''R2'' ''Mon'' 1, entry 4 ''Y'' ''C'' ''R2'' ''Tue'' 1],
      batches = [], classrooms = [], teacher_leaves = [7]\<rparr>"

definition room_db :: database where
  "room_db =
     \<lparr>timetables = [entry 1 ''X'' ''A'' ''Big'' ''Mon'' 1, entry 2 ''Y'' ''B'' ''Big'' ''Mon'' 2],
      batches = [\<lparr>b_batch_id = ''X'', b_student_count = 60\<rparr>,
                 \<lparr>b_batch_id = ''Y'', b_student_count = 20\<rparr>],
      classrooms = [\<lparr>c_class_id = ''Big'', c_capacity = 80, c_room_type = ''Lecture Hall''\<rparr>,
                    \<lparr>c_class_id = ''Small'', c_capacity = 30, c_room_type = ''Lecture Hall''\<rparr>],
      teacher_leaves = []\<rparr>"

section \<open>Sample schedules\<close>

text \<open>
  Three genes of one cohort and one instructor in one room: \<open>gene_a\<close> on Monday at 1,
  \<open>gene_b\<close> on Monday at 4, \<open>gene_c\<close> on Tuesday at 2.
\<close>

definition gene_at :: "string \<Rightarrow> int \<Rightarrow> Gene" where
  "gene_at d hr =
     \<lparr>batch_id = ''CS-UG-1'', subject_name = ''Math'', faculty_id = ''T1'', room_id = ''R1'',
      day = d, hour = hr, week_type = ''all''\<rparr>"

definition gene_a :: Gene where "gene_a = gene_at ''Monday'' 1"

definition gene_b :: Gene where "gene_b = gene_at ''Monday'' 4"

definition gene_c :: Gene where "gene_c = gene_at ''Tuesday'' 2"

section \<open>The room rule\<close>

text \<open>
  The rule of the rooms for one gene: its subject is in the subject frame, its room is
  in the classroom frame, and the subject is of type \<open>Lab\<close> exactly when the room is of
  type \<open>Laboratory\<close>. The type of a subject is the one \<open>prepare_data\<close> reads, that of
  the first row with the name.
\<close>

definition lab_rule :: "subject_row list \<Rightarrow> room_row list \<Rightarrow> Gene \<Rightarrow> bool" where
  "lab_rule subjects_df classrooms_df gn \<longleftrightarrow>
     (case find (\<lambda>s. s_name s = subject_name gn) subjects_df of
        None \<Rightarrow> False
      | Some s \<Rightarrow>
          (case find (\<lambda>r. Class_ID r = room_id gn) classrooms_df of
             None \<Rightarrow> False
           | Some r \<Rightarrow> (s_type s = ''Lab'') = (Room_Type r = ''Laboratory'')))"

text \<open>
  The lab routing instance: a laboratory R1 and a lecture hall R2 of 40 seats, one
  cohort of 35 with Prog (3 credits, theory) and ProgLab (2 credits, lab), and one
  instructor for both.
\<close>

definition lab_rooms_df :: "room_row list" where
  "lab_rooms_df =
     [\<lparr>Class_ID = ''R1'', Capacity = 40, Room_Type = ''Laboratory''\<rparr>,
      \<lparr>Class_ID = ''R2'', Capacity = 40, Room_Type = ''Lecture Hall''\<rparr>]"

definition lab_subjects_df :: "subject_row list" where
  "lab_subjects_df =
     [\<lparr>s_name = ''Prog'', credits = 3, s_type = ''Theory''\<rparr>,
      \<lparr>s_name = ''ProgLab'', credits = 2, s_type = ''Lab''\<rparr>]"

definition lab_faculty_df :: "faculty_row list" where
  "lab_faculty_df =
     [\<lparr>Employee_ID = ''T1'', f_subject_name = ''Prog,ProgLab'', max_hours_per_week = None,
       is_available = True\<rparr>]"

definition lab_batches_df :: "batch_row list" where
  "lab_batches_df =
     [\<lparr>department = ''CS'', level = ''UG'', semester = ''1'', student_count = 35,
       subjects = ''Prog,ProgLab''\<rparr>]"

definition lab_class :: "string \<Rightarrow> string \<Rightarrow> int \<Rightarrow> int \<Rightarrow> ClassInfo" where
  "lab_class subject ty cr hrs =
     \<lparr>cls_batch_id = ''CS-UG-1'', cls_subject_name = subject, cls_subject_type = ty,
      cls_student_count = 35, cls_credits = cr, cls_hours_per_week = hrs\<rparr>"

definition lab_data :: data where
  "lab_data =
     \<lparr>labs = [\<lparr>Class_ID = ''R1'', Capacity = 40, Room_Type = ''Laboratory''\<rparr>],
      lecture_halls = [\<lparr>Class_ID = ''R2'', Capacity = 40, Room_Type = ''Lecture Hall''\<rparr>],
      faculty_subject_map = [(''Prog'', [''T1'']), (''ProgLab'', [''T1''])],
      classes_to_schedule =
        [lab_class ''Prog'' ''Theory'' 3 2, lab_class ''Prog'' ''Theory'' 3 2,
         lab_class ''ProgLab'' ''Lab'' 2 4, lab_class ''ProgLab'' ''Lab'' 2 4,
         lab_class ''ProgLab'' ''Lab'' 2 4, lab_class ''ProgLab'' ''Lab'' 2 4],
      batch_subject_faculty_map =
        [(''CS-UG-1'', ''Prog'') \<mapsto> ''T1'', (''CS-UG-1'', ''ProgLab'') \<mapsto> ''T1''],
      faculty_workload = [''T1'' \<mapsto> \<lparr>max_hours = 20, current_hours = 6\<rparr>]\<rparr>"

text \<open>
  A class session carries the type of its subject: the subject frame has a row with the
  name of the session, and the type of the session is the type of the first such row.
\<close>

definition typed :: "subject_row list \<Rightarrow> ClassInfo \<Rightarrow> bool" where
  "typed sdf c \<longleftrightarrow> (\<exists>details. find (\<lambda>s. s_name s = cls_subject_name c) sdf = Some details \<and>
       cls_subject_type c = s_type details)"

section \<open>A minimal instance for the engine\<close>

text \<open>
  One cohort of 30 with Math (3 credits, two sessions a week), one instructor, one
  lecture room of 30 seats: the frames and the data \<open>prepare_data\<close> builds from them.
  \<open>blank_gene\<close> fills the store before the engine creates its genes.
\<close>

definition tiny_batches :: "batch_row list" where
  "tiny_batches =
     [\<lparr>department = ''CS'', level = ''UG'', semester = ''1'', student_count = 30,
       subjects = ''Math''\<rparr>]"

definition tiny_rooms :: "room_row list" where
  "tiny_rooms = [\<lparr>Class_ID = ''R1'', Capacity = 30, Room_Type = ''Lecture Hall''\<rparr>]"

definition tiny_faculty :: "faculty_row list" where
  "tiny_faculty =
     [\<lparr>Employee_ID = ''T1'', f_subject_name = ''Math'', max_hours_per_week = None,
       is_available = True\<rparr>]"

definition tiny_subjects :: "subject_row list" where
  "tiny_subjects = [\<lparr>s_name = ''Math'', credits = 3, s_type = ''Theory''\<rparr>]"

definition tiny_data :: data where
  "tiny_data =
     \<lparr>labs = [],
      lecture_halls = [\<lparr>Class_ID = ''R1'', Capacity = 30, Room_Type = ''Lecture Hall''\<rparr>],
      faculty_subject_map = [(''Math'', [''T1''])],
      classes_to_schedule =
        replicate 2 \<lparr>cls_batch_id = ''CS-UG-1'', cls_subject_name = ''Math'',
                      cls_subject_type = ''Theory'', cls_student_count = 30, cls_credits = 3,
                      cls_hours_per_week = 2\<rparr>,
      batch_subject_faculty_map = [(''CS-UG-1'', ''Math'') \<mapsto> ''T1''],
      faculty_workload = [''T1'' \<mapsto> \<lparr>max_hours = 20, current_hours = 2\<rparr>]\<rparr>"

definition blank_gene :: Gene where
  "blank_gene =
     \<lparr>batch_id = [], subject_name = [], faculty_id = [], room_id = [], day = [], hour = 0,
      week_type = []\<rparr>"

text \<open>
  A configuration with one chromosome per generation, as the defaults otherwise, and
  the outputs of the generator for the runs below. A draw of \<open>4503599627370496\<close> is the
  value 0.5 of \<open>random()\<close>, a draw of \<open>189151184349561\<close> a value between 0.02 and 0.022.
\<close>

definition small_config :: "int \<Rightarrow> GAConfig" where
  "small_config n = default_config\<lparr>population_size := 1, max_generations := n\<rparr>"

definition quiet_generation :: "int list" where
  "quiet_generation = [0, 0, 0, 0, 4503599627370496]"

definition seed_draws :: "int list" where
  "seed_draws =
     [0, 0, 0, 14] @ [0, 0, 0, 0, 189151184349561] @ [0, 1, 0, 1, 4503599627370496]
       @ concat (replicate 20 quiet_generation)"

section \<open>Properties of the repair scan\<close>

lemma book_conflict_add:
  "book_conflict (book_add b g) g' \<longleftrightarrow>
     book_conflict b g' \<or>
     (day g', hour g') = (day g, hour g) \<and>
       (faculty_id g' = faculty_id g \<or> batch_id g' = batch_id g \<or> room_id g' = room_id g)"
  by (auto simp: book_conflict_def book_add_def)

lemma repair_loop_subset: "set (repair_loop h seen rs) \<subseteq> set rs"
  by (induction rs arbitrary: seen) auto

lemma repair_loop_no_conflict:
  "r \<in> set (repair_loop h seen rs) \<Longrightarrow> \<not> book_conflict seen (h r)"
proof (induction rs arbitrary: seen)
  case Nil
  then show ?case by simp
next
  case (Cons a rs)
  show ?case
  proof (cases "book_conflict seen (h a)")
    case True
    with Cons show ?thesis by simp
  next
    case False
    with Cons.prems have "r = a \<or> r \<in> set (repair_loop h (book_add seen (h a)) rs)"
      by simp
    then show ?thesis
    proof
      assume "r = a"
      with False show ?thesis by simp
    next
      assume "r \<in> set (repair_loop h (book_add seen (h a)) rs)"
      then have "\<not> book_conflict (book_add seen (h a)) (h r)"
        by (rule Cons.IH)
      then show ?thesis by (simp add: book_conflict_add)
    qed
  qed
qed

lemma repair_loop_fixed: "repair_loop h seen (repair_loop h seen rs) = repair_loop h seen rs"
  by (induction rs arbitrary: seen) auto

text \<open>
  C9. The repair scan is idempotent: repairing a repaired chromosome gives the same
  chromosome again, for every chromosome and every content of the gene objects.
\<close>

theorem repair_idempotent:
  "repair_chromosome h (repair_chromosome h s) = repair_chromosome h s"
  by (simp add: repair_chromosome_def repair_loop_fixed)

section \<open>The gap penalty\<close>

lemma foldl_cond_add:
  "foldl (\<lambda>p i. if c i then p + f i else p) a xs = a + (\<Sum>i\<leftarrow>xs. if c i then f i else (0::int))"
  by (induction xs arbitrary: a) auto

lemma gap_penalty_sum:
  "gap_penalty w hours =
     (\<Sum>i\<leftarrow>[0..<length hours - 1].
        if hours ! (i + 1) - hours ! i - 1 > 1
        then consecutive_gap w * (hours ! (i + 1) - hours ! i - 1) else 0)"
  unfolding gap_penalty_def Let_def by (simp add: foldl_cond_add)

text \<open>
  C4, as the source computes it. For a day on which a cohort has at least two hours, the
  penalty of that day is the gap part plus the part for too many consecutive classes, and
  the gap part adds, for each adjacent pair of the sorted hours, 15 times
  \<open>h\<^bsub>i+1\<^esub> - h\<^bsub>i\<^esub> - 1\<close> when that number of empty hours is greater than 1, and nothing
  otherwise: one empty hour costs nothing, two empty hours cost 30.
\<close>

theorem gap_penalty_per_pair:
  "day_penalty fitness_weights hours =
     (if length hours \<le> 1 then 0
      else (\<Sum>i\<leftarrow>[0..<length hours - 1].
              if sort hours ! (i + 1) - sort hours ! i - 1 > 1
              then 15 * (sort hours ! (i + 1) - sort hours ! i - 1) else 0)
           + consecutive_penalty fitness_weights (sort hours))"
  by (simp add: day_penalty_def gap_penalty_sum fitness_weights_def cong: if_cong)

text \<open>
  The claim's formula \<open>15 \<cdot> max(0, h\<^bsub>i+1\<^esub> - h\<^bsub>i\<^esub> - 2)\<close> gives 15 for the hours 1 and 4 of
  one day; the source adds 30.
\<close>

theorem gap_penalty_counterexample:
  "calculate_schedule_quality_penalty [(''Monday'', 1), (''Monday'', 4)] fitness_weights = 30 \<and>
   15 * max 0 (4 - 1 - 2) = (15::int)"
  by (simp add: calculate_schedule_quality_penalty_def slots_by_day_def day_penalty_def
      gap_penalty_def consecutive_penalty_def longest_run_def MAX_CONSECUTIVE_CLASSES_def
      fitness_weights_def Let_def)

section \<open>Instructor substitution\<close>

lemma no_conflict_iff: "no_conflict occ es \<longleftrightarrow> (\<forall>e\<in>set es. (tt_day e, tt_hour e) \<notin> occ)"
  by (induction es) auto

lemma map_unaffected: "(\<And>e. e \<in> set xs \<Longrightarrow> \<not> P e) \<Longrightarrow> map (\<lambda>e. if P e then f e else e) xs = xs"
  by (induction xs) auto

text \<open>
  C3. For a leave request that exists: if the slot of an active row of the original
  instructor is the slot of an active row of the substitute, the handler fails with the
  conflict error and the database is unchanged; otherwise the table afterwards is the
  table with the instructor of every active row of the original instructor rewritten to
  the substitute, and every other row as it was.
\<close>

theorem substitution_atomic:
  assumes "leave_id \<in> set (teacher_leaves db)"
  shows "((\<exists>e\<in>set (timetables db). \<exists>e'\<in>set (timetables db).
            tt_faculty_id e = original \<and> tt_status e = ''active'' \<and>
            tt_faculty_id e' = substitute \<and> tt_status e' = ''active'' \<and>
            tt_day e = tt_day e' \<and> tt_hour e = tt_hour e')
          \<longrightarrow> handle_teacher_leave_optimization db leave_id original substitute notify
                = (db, Failed ''Substitute teacher has scheduling conflicts'')) \<and>
         (\<not> (\<exists>e\<in>set (timetables db). \<exists>e'\<in>set (timetables db).
            tt_faculty_id e = original \<and> tt_status e = ''active'' \<and>
            tt_faculty_id e' = substitute \<and> tt_status e' = ''active'' \<and>
            tt_day e = tt_day e' \<and> tt_hour e = tt_hour e')
          \<longrightarrow> fst (handle_teacher_leave_optimization db leave_id original substitute notify)
                = db\<lparr>timetables :=
                      map (\<lambda>e. if tt_faculty_id e = original \<and> tt_status e = ''active''
                                then e\<lparr>tt_faculty_id := substitute\<rparr> else e) (timetables db)\<rparr>)"
proof -
  let ?aff = "filter (affected_by_faculty original) (timetables db)"
  let ?conflict = "\<exists>e\<in>set (timetables db). \<exists>e'\<in>set (timetables db).
            tt_faculty_id e = original \<and> tt_status e = ''active'' \<and>
            tt_faculty_id e' = substitute \<and> tt_status e' = ''active'' \<and>
            tt_day e = tt_day e' \<and> tt_hour e = tt_hour e'"
  have chk: "check_substitute_availability substitute ?aff db \<longleftrightarrow> \<not> ?conflict"
    unfolding check_substitute_availability_def no_conflict_iff occupied_slots_def
      affected_by_faculty_def
    by (auto simp: image_iff)
  have empty: "?aff = [] \<Longrightarrow> \<not> ?conflict"
    by (auto simp: filter_empty_conv affected_by_faculty_def)
  have same: "?aff = [] \<Longrightarrow>
      db\<lparr>timetables := map (\<lambda>e. if tt_faculty_id e = original \<and> tt_status e = ''active''
                                then e\<lparr>tt_faculty_id := substitute\<rparr> else e) (timetables db)\<rparr> = db"
    by (simp add: filter_empty_conv affected_by_faculty_def map_unaffected)
  show ?thesis
  proof (cases "?aff = []")
    case True
    with assms empty same show ?thesis
      by (simp add: handle_teacher_leave_optimization_def)
  next
    case False
    with assms chk show ?thesis
      by (auto simp: handle_teacher_leave_optimization_def Let_def affected_by_faculty_def
          split: option.splits)
  qed
qed

text \<open>
  On \<open>leave_db\<close>: substituting B for A fails and changes nothing, since B teaches on
  Monday at 1; substituting C for A rewrites both rows of A.
\<close>

theorem substitution_atomic_witness:
  "handle_teacher_leave_optimization leave_db 7 ''A'' ''B'' None
     = (leave_db, Failed ''Substitute teacher has scheduling conflicts'') \<and>
   timetables (fst (handle_teacher_leave_optimization leave_db 7 ''A'' ''C'' None))
     = [entry 1 ''X'' ''C'' ''R1'' ''Mon'' 1, entry 2 ''X'' ''C'' ''R1'' ''Mon'' 2,
        entry 3 ''Y'' ''B'' ''R2'' ''Mon'' 1, entry 4 ''Y'' ''C'' ''R2'' ''Tue'' 1]"
  using substitution_atomic [of 7 leave_db "''A''" "''B''" None]
    substitution_atomic [of 7 leave_db "''A''" "''C''" None]
  by (simp add: leave_db_def entry_def)

section \<open>Room substitution\<close>

lemma room_change_loop_rows:
  "fst (room_change_loop bs nr nid aff es) =
     map (\<lambda>e. if aff e \<and> \<not> exceeds_capacity bs nr e then e\<lparr>tt_room_id := nid\<rparr> else e) es"
  by (induction es) (auto simp: exceeds_capacity_def split: prod.splits option.splits)

lemma room_change_loop_issues:
  "map ci_batch_id (snd (snd (room_change_loop bs nr nid aff es))) =
     map tt_batch_id (filter (\<lambda>e. aff e \<and> exceeds_capacity bs nr e) es)"
  by (induction es) (auto simp: exceeds_capacity_def split: prod.splits option.splits)

text \<open>
  C5, as the source does it. With a new room that exists, \<open>optimize_for_room_change\<close>
  leaves every affected row whose cohort exceeds the capacity of the new room as it is
  (its room is not rewritten and its status is not changed) and records one capacity
  issue for it, in order; every other affected row gets the new room. With a
  replacement room that exists, \<open>_handle_room_emergency\<close> marks such a row cancelled
  and keeps its room, and moves every other affected row.
\<close>

theorem room_substitution:
  assumes "find (\<lambda>c. c_class_id c = new_room_id) (classrooms db) = Some new_room"
  shows
    "timetables (rc_db (optimize_for_room_change db old_room_id new_room_id affected_batches notify)) =
       map (\<lambda>e. if affected_by_room old_room_id affected_batches e
                    \<and> \<not> exceeds_capacity (batches db) new_room e
                 then e\<lparr>tt_room_id := new_room_id\<rparr> else e) (timetables db) \<and>
     map ci_batch_id (rc_capacity_issues
         (optimize_for_room_change db old_room_id new_room_id affected_batches notify)) =
       map tt_batch_id (filter (\<lambda>e. affected_by_room old_room_id affected_batches e
                                    \<and> exceeds_capacity (batches db) new_room e) (timetables db)) \<and>
     timetables (handle_room_emergency [old_room_id] (Some [new_room_id]) db) =
       map (\<lambda>e. if tt_room_id e = old_room_id \<and> tt_status e = ''active''
                 then (if exceeds_capacity (batches db) new_room e
                       then e\<lparr>tt_status := ''cancelled''\<rparr>
                       else e\<lparr>tt_room_id := new_room_id\<rparr>)
                 else e) (timetables db)"
proof -
  obtain tts n issues where loop:
    "room_change_loop (batches db) new_room new_room_id
       (affected_by_room old_room_id affected_batches) (timetables db) = (tts, n, issues)"
    by (cases "room_change_loop (batches db) new_room new_room_id
       (affected_by_room old_room_id affected_batches) (timetables db)") auto
  have tts: "tts = map (\<lambda>e. if affected_by_room old_room_id affected_batches e
                    \<and> \<not> exceeds_capacity (batches db) new_room e
                 then e\<lparr>tt_room_id := new_room_id\<rparr> else e) (timetables db)"
    using room_change_loop_rows [of "batches db" new_room new_room_id
        "affected_by_room old_room_id affected_batches" "timetables db"] loop by simp
  have issues: "map ci_batch_id issues =
       map tt_batch_id (filter (\<lambda>e. affected_by_room old_room_id affected_batches e
                                    \<and> exceeds_capacity (batches db) new_room e) (timetables db))"
    using room_change_loop_issues [of "batches db" new_room new_room_id
        "affected_by_room old_room_id affected_batches" "timetables db"] loop by simp
  have emergency: "emergency_entry (batches db) new_room new_room_id e =
      (if exceeds_capacity (batches db) new_room e
                       then e\<lparr>tt_status := ''cancelled''\<rparr>
                       else e\<lparr>tt_room_id := new_room_id\<rparr>)" for e
    by (auto simp: emergency_entry_def exceeds_capacity_def split: option.splits)
  show ?thesis
    using assms loop tts issues
    by (simp add: optimize_for_room_change_def handle_room_emergency_def
        room_emergency_step_def emergency cong: if_cong)
qed

text \<open>
  Both handlers on \<open>room_db\<close>: the cohort of 60 does not fit the room of 30, the cohort of
  20 does.
\<close>

theorem room_substitution_witness:
  "timetables (rc_db (optimize_for_room_change room_db ''Big'' ''Small'' None None)) =
     [entry 1 ''X'' ''A'' ''Big'' ''Mon'' 1, entry 2 ''Y'' ''B'' ''Small'' ''Mon'' 2] \<and>
   map ci_batch_id (rc_capacity_issues (optimize_for_room_change room_db ''Big'' ''Small'' None None)) =
     [''X''] \<and>
   timetables (handle_room_emergency [''Big''] (Some [''Small'']) room_db) =
     [(entry 1 ''X'' ''A'' ''Big'' ''Mon'' 1)\<lparr>tt_status := ''cancelled''\<rparr>,
      entry 2 ''Y'' ''B'' ''Small'' ''Mon'' 2]"
proof -
  have found: "find (\<lambda>c. c_class_id c = ''Small'') (classrooms room_db)
      = Some \<lparr>c_class_id = ''Small'', c_capacity = 30, c_room_type = ''Lecture Hall''\<rparr>"
    by (simp add: room_db_def)
  show ?thesis
    using room_substitution [OF found, of "''Big''" None None]
    by (simp add: room_db_def entry_def affected_by_room_def exceeds_capacity_def)
qed

text \<open>
  The claim's cancellation fails for \<open>optimize_for_room_change\<close>: the row of the cohort
  of 60, which exceeds the capacity 30 of the new room, is still active afterwards.
\<close>

theorem room_substitution_counterexample:
  "map tt_status (timetables (rc_db (optimize_for_room_change room_db ''Big'' ''Small'' None None)))
     = [''active'', ''active''] \<and>
   map tt_room_id (timetables (rc_db (optimize_for_room_change room_db ''Big'' ''Small'' None None)))
     = [''Big'', ''Small''] \<and>
   exceeds_capacity (batches room_db)
     \<lparr>c_class_id = ''Small'', c_capacity = 30, c_room_type = ''Lecture Hall''\<rparr>
     (entry 1 ''X'' ''A'' ''Big'' ''Mon'' 1)"
  by (simp add: optimize_for_room_change_def room_db_def entry_def affected_by_room_def
      exceeds_capacity_def)

section \<open>Instructor pre-selection\<close>

lemma min_by_split:
  "\<exists>ys zs. b # xs = ys @ min_by f b xs # zs \<and>
     (\<forall>y\<in>set ys. f (min_by f b xs) < f y) \<and> (\<forall>z\<in>set zs. f (min_by f b xs) \<le> f z)"
proof (induction xs arbitrary: b)
  case Nil
  have "[b] = [] @ b # []" by simp
  then show ?case by (metis min_by.simps(1) empty_iff list.set(1))
next
  case (Cons x xs)
  show ?case
  proof (cases "f x < f b")
    case True
    from Cons.IH [of x] obtain ys zs where
      s: "x # xs = ys @ min_by f x xs # zs"
      and e: "\<forall>y\<in>set ys. f (min_by f x xs) < f y"
      and l: "\<forall>z\<in>set zs. f (min_by f x xs) \<le> f z"
      by blast
    have "min_by f x xs \<in> set (x # xs)" using s by (metis in_set_conv_decomp)
    have le: "f (min_by f x xs) \<le> f x"
    proof (cases ys)
      case Nil
      from s have "x # xs = min_by f x xs # zs" unfolding Nil append_Nil .
      then have "x = min_by f x xs" by (rule list.inject [THEN iffD1, THEN conjunct1])
      then show ?thesis by (metis order_refl)
    next
      case (Cons y ys')
      with s have "y = x" by simp
      with e Cons show ?thesis by auto
    qed
    have "b # x # xs = (b # ys) @ min_by f x xs # zs" using s by simp
    moreover have "\<forall>y\<in>set (b # ys). f (min_by f x xs) < f y" using e le True by auto
    ultimately show ?thesis using True l by (metis min_by.simps(2))
  next
    case False
    from Cons.IH [of b] obtain ys zs where
      s: "b # xs = ys @ min_by f b xs # zs"
      and e: "\<forall>y\<in>set ys. f (min_by f b xs) < f y"
      and l: "\<forall>z\<in>set zs. f (min_by f b xs) \<le> f z"
      by blast
    show ?thesis
    proof (cases ys)
      case Nil
      from s have "b # xs = min_by f b xs # zs" unfolding Nil append_Nil .
      then have b: "min_by f b xs = b" and zs: "zs = xs"
        by (metis list.inject)+
      have "b # x # xs = [] @ min_by f b xs # (x # zs)" using b zs by simp
      moreover have "\<forall>z\<in>set (x # zs). f (min_by f b xs) \<le> f z" using l b False by auto
      ultimately show ?thesis using False by (metis min_by.simps(2) empty_iff list.set(1))
    next
      case (Cons y ys')
      from s have "b # xs = y # (ys' @ min_by f b xs # zs)" unfolding Cons append_Cons .
      then have y: "y = b" and xs: "xs = ys' @ min_by f b xs # zs"
        by (metis list.inject)+
      have lt: "f (min_by f b xs) < f b" using e Cons y by simp
      have "b # x # xs = (b # x # ys') @ min_by f b xs # zs" using xs by simp
      moreover have "\<forall>y\<in>set (b # x # ys'). f (min_by f b xs) < f y"
        using e Cons lt False by auto
      ultimately show ?thesis using False l by (metis min_by.simps(2))
    qed
  qed
qed

lemma dict_get_append:
  "dict_get (dict_append k v d) k' = (if k' = k then dict_get d k' @ [v] else dict_get d k')"
  by (induction d) (auto simp: dict_get_def)

lemma dict_get_foldl:
  "set (dict_get (foldl (\<lambda>m s. dict_append s v m) d ss) k) =
     set (dict_get d k) \<union> (if k \<in> set ss then {v} else {})"
  by (induction ss arbitrary: d) (auto simp: dict_get_append)

lemma faculty_maps_fst_gen:
  "set (dict_get (fst (foldl faculty_step st rows)) s) =
     set (dict_get (fst st) s) \<union>
     {Employee_ID r |r. r \<in> set rows \<and> s \<in> set (subject_list (f_subject_name r))}"
proof (induction rows arbitrary: st)
  case Nil
  show ?case by simp
next
  case (Cons r rows)
  show ?case
    unfolding foldl_Cons Cons.IH
    by (auto simp: faculty_step_def dict_get_foldl)
qed

lemma qualified_set:
  "set (dict_get (fst (faculty_maps faculty_df)) s) =
     {Employee_ID r |r. r \<in> set faculty_df \<and> s \<in> set (subject_list (f_subject_name r))}"
proof -
  have "dict_get (fst ([]::(string \<times> string list) list, Map.empty::string \<rightharpoonup> workload)) s = []"
    by (simp add: dict_get_def)
  then show ?thesis
    unfolding faculty_maps_def faculty_maps_fst_gen by simp
qed

lemma faculty_maps_snd_gen:
  "dom (snd (foldl faculty_step st rows)) = dom (snd st) \<union> Employee_ID ` set rows"
  by (induction rows arbitrary: st) (auto simp: faculty_step_def)

lemma workload_dom: "dom (snd (faculty_maps faculty_df)) = Employee_ID ` set faculty_df"
  by (simp add: faculty_maps_def faculty_maps_snd_gen)

lemma assign_subject_dom:
  "assign_subject sdf fsm st pair = Inr st' \<Longrightarrow> dom (ps_workload st) \<subseteq> dom (ps_workload st')"
  by (auto simp: assign_subject_def Let_def split: option.splits if_splits)

lemma assign_subject_no_error:
  assumes "\<And>s. set (dict_get fsm s) \<subseteq> dom (ps_workload st)"
  shows "\<exists>st'. assign_subject sdf fsm st pair = Inr st'"
  using assms by (fastforce simp: assign_subject_def Let_def split: option.splits)

lemma fold_err_no_error:
  assumes "\<And>s. set (dict_get fsm s) \<subseteq> dom (ps_workload st)"
  shows "\<exists>st'. fold_err (assign_subject sdf fsm) st pairs = Inr st' \<and>
           dom (ps_workload st) \<subseteq> dom (ps_workload st')"
  using assms
proof (induction pairs arbitrary: st)
  case Nil
  show ?case by simp
next
  case (Cons p pairs)
  from assign_subject_no_error [OF Cons.prems, of sdf p] obtain st1
    where st1: "assign_subject sdf fsm st p = Inr st1" by blast
  have sub: "dom (ps_workload st) \<subseteq> dom (ps_workload st1)"
    using st1 by (rule assign_subject_dom)
  have "\<And>s. set (dict_get fsm s) \<subseteq> dom (ps_workload st1)"
    using Cons.prems sub by blast
  from Cons.IH [OF this] obtain st' where
    "fold_err (assign_subject sdf fsm) st1 pairs = Inr st'"
    "dom (ps_workload st1) \<subseteq> dom (ps_workload st')" by blast
  with st1 sub show ?case by auto
qed

lemma fold_err_snoc:
  "fold_err f st (xs @ [x]) =
     (case fold_err f st xs of Inl e \<Rightarrow> Inl e | Inr st' \<Rightarrow> f st' x)"
  by (induction xs arbitrary: st) (auto split: sum.splits)

lemma initial_covers:
  "set (dict_get (fst (faculty_maps faculty_df)) s) \<subseteq> dom (ps_workload (initial_prep faculty_df))"
  by (auto simp: qualified_set initial_prep_def workload_dom)

text \<open>
  C7, as the source does it. When the loop of \<open>prepare_data\<close> reaches its \<open>k\<close>-th pair
  \<open>(batch, subject)\<close> and the subject is in the subject frame, the loop has raised no
  error so far; the qualified instructors are those of the faculty rows whose subject
  list contains the subject, whatever their availability flag; if there is none, the
  pair changes nothing (no session, no workload); otherwise the instructor recorded for
  the pair is the first one in first-seen order with the least current workload, the
  workload of that instructor grows by the session count, and one session per weekly
  hour is appended.
\<close>

theorem preselection:
  assumes k: "k < length (batch_subject_pairs batches_df)"
    and pair: "batch_subject_pairs batches_df ! k = (batch, subject)"
    and details: "find (\<lambda>s. s_name s = subject) subjects_df = Some details"
  shows "\<exists>st. prepare_loop faculty_df subjects_df (take k (batch_subject_pairs batches_df)) = Inr st \<and>
     set (dict_get (fst (faculty_maps faculty_df)) subject) =
       {Employee_ID r |r. r \<in> set faculty_df \<and> subject \<in> set (subject_list (f_subject_name r))} \<and>
     (dict_get (fst (faculty_maps faculty_df)) subject = [] \<longrightarrow>
        prepare_loop faculty_df subjects_df (take (Suc k) (batch_subject_pairs batches_df)) = Inr st) \<and>
     (dict_get (fst (faculty_maps faculty_df)) subject \<noteq> [] \<longrightarrow>
        (\<exists>earlier chosen later w.
           dict_get (fst (faculty_maps faculty_df)) subject = earlier @ chosen # later \<and>
           ps_workload st chosen = Some w \<and>
           (\<forall>f\<in>set earlier. \<exists>w'. ps_workload st f = Some w' \<and> current_hours w < current_hours w') \<and>
           (\<forall>f\<in>set later. \<exists>w'. ps_workload st f = Some w' \<and> current_hours w \<le> current_hours w') \<and>
           prepare_loop faculty_df subjects_df (take (Suc k) (batch_subject_pairs batches_df)) =
             Inr \<lparr>ps_classes = ps_classes st @
                     replicate (nat (calculate_hours_per_week (credits details) (s_type details)))
                       \<lparr>cls_batch_id = batch_id_of batch, cls_subject_name = subject,
                        cls_subject_type = s_type details,
                        cls_student_count = student_count batch,
                        cls_credits = credits details,
                        cls_hours_per_week =
                          calculate_hours_per_week (credits details) (s_type details)\<rparr>,
                  ps_map = (ps_map st)((batch_id_of batch, subject) \<mapsto> chosen),
                  ps_workload = (ps_workload st)(chosen \<mapsto>
                     w\<lparr>current_hours := current_hours w
                          + calculate_hours_per_week (credits details) (s_type details)\<rparr>)\<rparr>))"
proof -
  let ?fsm = "fst (faculty_maps faculty_df)"
  let ?pairs = "batch_subject_pairs batches_df"
  let ?q = "dict_get ?fsm subject"
  let ?key = "\<lambda>st f. current_hours (the (ps_workload st f))"
  from fold_err_no_error [of ?fsm "initial_prep faculty_df" subjects_df "take k ?pairs"]
    initial_covers [of faculty_df]
  obtain st where st: "prepare_loop faculty_df subjects_df (take k ?pairs) = Inr st"
    and dom: "dom (ps_workload (initial_prep faculty_df)) \<subseteq> dom (ps_workload st)"
    unfolding prepare_loop_def by blast
  have cover: "set ?q \<subseteq> dom (ps_workload st)"
    using initial_covers [of faculty_df subject] dom by blast
  have step: "prepare_loop faculty_df subjects_df (take (Suc k) ?pairs)
      = assign_subject subjects_df ?fsm st (batch, subject)"
    using st k pair unfolding prepare_loop_def
    by (simp add: take_Suc_conv_app_nth fold_err_snoc)
  have empty: "?q = [] \<Longrightarrow> assign_subject subjects_df ?fsm st (batch, subject) = Inr st"
    using details by (simp add: assign_subject_def)
  have nonempty: "\<exists>earlier chosen later w.
           ?q = earlier @ chosen # later \<and>
           ps_workload st chosen = Some w \<and>
           (\<forall>f\<in>set earlier. \<exists>w'. ps_workload st f = Some w' \<and> current_hours w < current_hours w') \<and>
           (\<forall>f\<in>set later. \<exists>w'. ps_workload st f = Some w' \<and> current_hours w \<le> current_hours w') \<and>
           assign_subject subjects_df ?fsm st (batch, subject) =
             Inr \<lparr>ps_classes = ps_classes st @
                     replicate (nat (calculate_hours_per_week (credits details) (s_type details)))
                       \<lparr>cls_batch_id = batch_id_of batch, cls_subject_name = subject,
                        cls_subject_type = s_type details,
                        cls_student_count = student_count batch,
                        cls_credits = credits details,
                        cls_hours_per_week =
                          calculate_hours_per_week (credits details) (s_type details)\<rparr>,
                  ps_map = (ps_map st)((batch_id_of batch, subject) \<mapsto> chosen),
                  ps_workload = (ps_workload st)(chosen \<mapsto>
                     w\<lparr>current_hours := current_hours w
                          + calculate_hours_per_week (credits details) (s_type details)\<rparr>)\<rparr>"
    if ne: "?q \<noteq> []"
  proof -
    define best where "best = min_by (?key st) (hd ?q) (tl ?q)"
    from min_by_split [of "hd ?q" "tl ?q" "?key st"] ne
    obtain ys zs where split: "?q = ys @ best # zs"
      and e: "\<forall>y\<in>set ys. ?key st best < ?key st y"
      and l: "\<forall>z\<in>set zs. ?key st best \<le> ?key st z"
      unfolding best_def by auto
    have all: "\<forall>f\<in>set ?q. \<exists>w'. ps_workload st f = Some w'"
      using cover by blast
    have "best \<in> set ?q" using split by (metis in_set_conv_decomp)
    with all obtain w where w: "ps_workload st best = Some w" by blast
    have e': "\<forall>f\<in>set ys. \<exists>w'. ps_workload st f = Some w' \<and> current_hours w < current_hours w'"
    proof
      fix f assume f: "f \<in> set ys"
      then have "f \<in> set ?q" using split by (metis Un_iff set_append)
      with all obtain w' where "ps_workload st f = Some w'" by blast
      with e f w show "\<exists>w'. ps_workload st f = Some w' \<and> current_hours w < current_hours w'"
        by auto
    qed
    have l': "\<forall>f\<in>set zs. \<exists>w'. ps_workload st f = Some w' \<and> current_hours w \<le> current_hours w'"
    proof
      fix f assume f: "f \<in> set zs"
      then have "f \<in> set ?q" using split by (metis Un_iff set_append list.set_intros(2))
      with all obtain w' where "ps_workload st f = Some w'" by blast
      with l f w show "\<exists>w'. ps_workload st f = Some w' \<and> current_hours w \<le> current_hours w'"
        by auto
    qed
    have nokey: "\<not> (\<exists>f\<in>set ?q. ps_workload st f = None)"
      using all by auto
    have "assign_subject subjects_df ?fsm st (batch, subject) =
             Inr \<lparr>ps_classes = ps_classes st @
                     replicate (nat (calculate_hours_per_week (credits details) (s_type details)))
                       \<lparr>cls_batch_id = batch_id_of batch, cls_subject_name = subject,
                        cls_subject_type = s_type details,
                        cls_student_count = student_count batch,
                        cls_credits = credits details,
                        cls_hours_per_week =
                          calculate_hours_per_week (credits details) (s_type details)\<rparr>,
                  ps_map = (ps_map st)((batch_id_of batch, subject) \<mapsto> best),
                  ps_workload = (ps_workload st)(best \<mapsto>
                     w\<lparr>current_hours := current_hours w
                          + calculate_hours_per_week (credits details) (s_type details)\<rparr>)\<rparr>"
      using details ne nokey w unfolding assign_subject_def best_def [symmetric]
      by (simp add: Let_def best_def [symmetric])
    with split w e' l' show ?thesis by blast
  qed
  show ?thesis
    using st step empty nonempty qualified_set [of faculty_df subject] by auto
qed

text \<open>
  On the small instance the first pair is the cohort with Math: T1 and T2 both have no
  hours yet and T1 was seen first, so T1 is recorded and gets the two sessions.
\<close>

theorem preselection_witness:
  "0 < length (batch_subject_pairs [demo_batch]) \<and>
   batch_subject_pairs [demo_batch] ! 0 = (demo_batch, ''Math'') \<and>
   find (\<lambda>s. s_name s = ''Math'') demo_subjects = Some \<lparr>s_name = ''Math'', credits = 3, s_type = ''Theory''\<rparr> \<and>
   dict_get (fst (faculty_maps demo_faculty)) ''Math'' = [''T1'', ''T2''] \<and>
   (case prepare_loop demo_faculty demo_subjects (take (Suc 0) (batch_subject_pairs [demo_batch])) of
      Inl e \<Rightarrow> False
    | Inr st \<Rightarrow>
        ps_map st (''CS-UG-1'', ''Math'') = Some ''T1'' \<and>
        map_option current_hours (ps_workload st ''T1'') = Some 2 \<and>
        map_option current_hours (ps_workload st ''T2'') = Some 0 \<and>
        map cls_subject_name (ps_classes st) = [''Math'', ''Math''])"
proof -
  have pairs: "batch_subject_pairs [demo_batch] = [(demo_batch, ''Math''), (demo_batch, ''Physics'')]"
    by (simp add: batch_subject_pairs_def demo_batch_def subject_list_def strip_def is_space_def)
  have h1: "0 < length (batch_subject_pairs [demo_batch])"
    by (simp add: pairs)
  have h2: "batch_subject_pairs [demo_batch] ! 0 = (demo_batch, ''Math'')"
    by (simp add: pairs)
  have h3: "find (\<lambda>s. s_name s = ''Math'') demo_subjects
      = Some \<lparr>s_name = ''Math'', credits = 3, s_type = ''Theory''\<rparr>"
    by (simp add: demo_subjects_def)
  have maps: "faculty_maps demo_faculty =
      ([(''Math'', [''T1'', ''T2'']), (''Physics'', [''T1''])],
       [''T1'' \<mapsto> \<lparr>max_hours = 20, current_hours = 0\<rparr>,
        ''T2'' \<mapsto> \<lparr>max_hours = 18, current_hours = 0\<rparr>])"
    by (simp add: faculty_maps_def faculty_step_def demo_faculty_def subject_list_def strip_def
        is_space_def)
  have q: "dict_get (fst (faculty_maps demo_faculty)) ''Math'' = [''T1'', ''T2'']"
    by (simp add: maps dict_get_def)
  have res: "(case prepare_loop demo_faculty demo_subjects
                  (take (Suc 0) (batch_subject_pairs [demo_batch])) of
      Inl e \<Rightarrow> False
    | Inr st \<Rightarrow>
        ps_map st (''CS-UG-1'', ''Math'') = Some ''T1'' \<and>
        map_option current_hours (ps_workload st ''T1'') = Some 2 \<and>
        map_option current_hours (ps_workload st ''T2'') = Some 0 \<and>
        map cls_subject_name (ps_classes st) = [''Math'', ''Math''])"
    unfolding pairs
    by (simp add: maps prepare_loop_def initial_prep_def assign_subject_def dict_get_def
        calculate_hours_per_week_def batch_id_of_def demo_batch_def demo_subjects_def Let_def eval_nat_numeral)
  show ?thesis
    using preselection [OF h1 h2 h3, of demo_faculty] h1 h2 h3 q res
    by blast
qed

text \<open>
  The availability flag does not decide eligibility: T1 is not available, yet T1 is
  recorded for Math and for Physics, and Physics, which only T1 teaches, contributes
  its three sessions.
\<close>

theorem preselection_counterexample:
  "map (\<lambda>r. (Employee_ID r, is_available r)) demo_faculty = [(''T1'', False), (''T2'', True)] \<and>
   (case prepare_data [demo_batch] [] demo_faculty demo_subjects of
      Inl e \<Rightarrow> False
    | Inr d \<Rightarrow>
        batch_subject_faculty_map d (''CS-UG-1'', ''Math'') = Some ''T1'' \<and>
        batch_subject_faculty_map d (''CS-UG-1'', ''Physics'') = Some ''T1'' \<and>
        map cls_subject_name (classes_to_schedule d)
          = [''Math'', ''Math'', ''Physics'', ''Physics'', ''Physics''])"
proof -
  have pairs: "batch_subject_pairs [demo_batch] = [(demo_batch, ''Math''), (demo_batch, ''Physics'')]"
    by (simp add: batch_subject_pairs_def demo_batch_def subject_list_def strip_def is_space_def)
  have maps: "faculty_maps demo_faculty =
      ([(''Math'', [''T1'', ''T2'']), (''Physics'', [''T1''])],
       [''T1'' \<mapsto> \<lparr>max_hours = 20, current_hours = 0\<rparr>,
        ''T2'' \<mapsto> \<lparr>max_hours = 18, current_hours = 0\<rparr>])"
    by (simp add: faculty_maps_def faculty_step_def demo_faculty_def subject_list_def strip_def
        is_space_def)
  have flags: "map (\<lambda>r. (Employee_ID r, is_available r)) demo_faculty
      = [(''T1'', False), (''T2'', True)]"
    by (simp add: demo_faculty_def)
  have res: "(case prepare_data [demo_batch] [] demo_faculty demo_subjects of
      Inl e \<Rightarrow> False
    | Inr d \<Rightarrow>
        batch_subject_faculty_map d (''CS-UG-1'', ''Math'') = Some ''T1'' \<and>
        batch_subject_faculty_map d (''CS-UG-1'', ''Physics'') = Some ''T1'' \<and>
        map cls_subject_name (classes_to_schedule d)
          = [''Math'', ''Math'', ''Physics'', ''Physics'', ''Physics''])"
    unfolding prepare_data_def pairs
    by (simp add: maps prepare_loop_def initial_prep_def
        assign_subject_def dict_get_def calculate_hours_per_week_def batch_id_of_def
        demo_batch_def demo_subjects_def Let_def eval_nat_numeral)
  show ?thesis using flags res by blast
qed

section \<open>Feasibility of the schedules the operators return\<close>

lemma key_fresh:
  "(k x, day x, hour x) \<notin> (\<lambda>g. (k g, day g, hour g)) ` set xs \<longleftrightarrow>
     (\<forall>y\<in>set xs. (day y, hour y) = (day x, hour x) \<longrightarrow> k y \<noteq> k x)"
  unfolding image_iff by auto

lemma feasible_Cons:
  "feasible (x # xs) \<longleftrightarrow>
     feasible xs \<and>
     (\<forall>y\<in>set xs. (day y, hour y) = (day x, hour x) \<longrightarrow>
        faculty_id y \<noteq> faculty_id x \<and> batch_id y \<noteq> batch_id x \<and> room_id y \<noteq> room_id x)"
  unfolding feasible_def distinct.simps list.map set_map key_fresh by blast

lemma feasible_Nil: "feasible []"
  by (simp add: feasible_def)

lemma repair_loop_feasible: "feasible (map h (repair_loop h seen rs))"
proof (induction rs arbitrary: seen)
  case Nil
  show ?case by (simp add: feasible_Nil)
next
  case (Cons r rs)
  show ?case
  proof (cases "book_conflict seen (h r)")
    case True
    then show ?thesis using Cons.IH by simp
  next
    case False
    have "\<forall>r'\<in>set (repair_loop h (book_add seen (h r)) rs).
            \<not> book_conflict (book_add seen (h r)) (h r')"
      by (auto dest: repair_loop_no_conflict)
    then have "\<forall>y\<in>set (map h (repair_loop h (book_add seen (h r)) rs)).
        (day y, hour y) = (day (h r), hour (h r)) \<longrightarrow>
        faculty_id y \<noteq> faculty_id (h r) \<and> batch_id y \<noteq> batch_id (h r) \<and> room_id y \<noteq> room_id (h r)"
      by (auto simp: book_conflict_add)
    with False Cons.IH [of "book_add seen (h r)"] show ?thesis
      by (simp add: feasible_Cons)
  qed
qed

lemma repair_chromosome_feasible: "feasible (map h (repair_chromosome h s))"
  by (simp add: repair_chromosome_def repair_loop_feasible feasible_Nil)

lemma nat_mod_less: "0 < n \<Longrightarrow> nat (d mod int n) < n"
  using pos_mod_bound [of "int n" d] pos_mod_sign [of "int n" d] by linarith

lemma randbelow_less: "0 < n \<Longrightarrow> fst (randbelow n g) < n"
  by (simp add: randbelow_def next_draw_def nat_mod_less split: list.splits)

lemma choice_in: "xs \<noteq> [] \<Longrightarrow> fst (choice xs g) \<in> set xs"
  using randbelow_less [of "length xs" g]
  by (simp add: choice_def split_def Let_def)

lemma find_SomeD: "find P xs = Some x \<Longrightarrow> P x \<and> x \<in> set xs"
  by (induction xs) (auto split: if_splits)

lemma available_slots_free:
  assumes "p \<in> set (available_slots c fid used rooms)"
  shows "fst p \<notin> by_faculty used fid \<and> fst p \<notin> by_batch used (cls_batch_id c) \<and>
         fst p \<notin> by_room used (Class_ID (snd p)) \<and> snd p \<in> set rooms"
proof -
  from assms have "\<exists>ts\<in>set (get_preferred_slots (cls_subject_type c)).
      p \<in> set (if ts \<notin> by_faculty used fid \<and> ts \<notin> by_batch used (cls_batch_id c)
        then (case find (\<lambda>room. ts \<notin> by_room used (Class_ID room)) rooms of
                None \<Rightarrow> [] | Some room \<Rightarrow> [(ts, room)])
        else [])"
    unfolding available_slots_def set_concat set_map by blast
  then obtain ts where ts: "ts \<in> set (get_preferred_slots (cls_subject_type c))"
    and p: "p \<in> set (if ts \<notin> by_faculty used fid \<and> ts \<notin> by_batch used (cls_batch_id c)
        then (case find (\<lambda>room. ts \<notin> by_room used (Class_ID room)) rooms of
                None \<Rightarrow> [] | Some room \<Rightarrow> [(ts, room)])
        else [])"
    by blast
  have free: "ts \<notin> by_faculty used fid \<and> ts \<notin> by_batch used (cls_batch_id c)"
  proof (rule ccontr)
    assume "\<not> (ts \<notin> by_faculty used fid \<and> ts \<notin> by_batch used (cls_batch_id c))"
    with p show False by simp
  qed
  with p have p': "p \<in> set (case find (\<lambda>room. ts \<notin> by_room used (Class_ID room)) rooms of
                None \<Rightarrow> [] | Some room \<Rightarrow> [(ts, room)])"
    by simp
  then obtain room where room: "find (\<lambda>room. ts \<notin> by_room used (Class_ID room)) rooms = Some room"
    and pp: "p = (ts, room)"
    by (cases "find (\<lambda>room. ts \<notin> by_room used (Class_ID room)) rooms") auto
  from find_SomeD [OF room] free pp show ?thesis by simp
qed

lemma create_gene_Some:
  assumes "create_gene c used d g = (Some gn, g')"
  shows "\<not> book_conflict used gn \<and> batch_id gn = cls_batch_id c \<and>
         subject_name gn = cls_subject_name c \<and>
         (\<exists>room\<in>set (possible_rooms c d). room_id gn = Class_ID room)"
proof -
  from assms obtain fid where
    fid: "batch_subject_faculty_map d (cls_batch_id c, cls_subject_name c) = Some fid"
    by (auto simp: create_gene_def split: option.splits)
  let ?avail = "available_slots c fid used (possible_rooms c d)"
  from assms fid have ne: "?avail \<noteq> []"
    by (auto simp: create_gene_def Let_def split: if_splits)
  from assms fid ne have gn: "gn = \<lparr>batch_id = cls_batch_id c,
                           subject_name = cls_subject_name c,
                           faculty_id = fid,
                           room_id = Class_ID (snd (fst (choice ?avail g))),
                           day = fst (fst (fst (choice ?avail g))),
                           hour = snd (fst (fst (choice ?avail g))),
                           week_type = ''all''\<rparr>"
    by (auto simp: create_gene_def Let_def split_def split: if_splits)
  from choice_in [OF ne, of g] available_slots_free
  have free: "fst (fst (choice ?avail g)) \<notin> by_faculty used fid \<and>
      fst (fst (choice ?avail g)) \<notin> by_batch used (cls_batch_id c) \<and>
      fst (fst (choice ?avail g)) \<notin> by_room used (Class_ID (snd (fst (choice ?avail g)))) \<and>
      snd (fst (choice ?avail g)) \<in> set (possible_rooms c d)"
    by blast
  then show ?thesis
    unfolding gn by (auto simp: book_conflict_def)
qed

lemma create_loop_no_conflict:
  "gn \<in> set (fst (create_loop d used cs g)) \<Longrightarrow> \<not> book_conflict used gn"
proof (induction cs arbitrary: used g)
  case Nil
  then show ?case by simp
next
  case (Cons c cs)
  obtain res g' where cg: "create_gene c used d g = (res, g')"
    by (cases "create_gene c used d g") auto
  show ?case
  proof (cases res)
    case None
    with Cons cg show ?thesis by simp
  next
    case (Some a)
    with Cons.prems cg have "gn = a \<or> gn \<in> set (fst (create_loop d (book_add used a) cs g'))"
      by (auto simp: split_def Let_def)
    then show ?thesis
    proof
      assume "gn = a"
      with cg Some create_gene_Some show ?thesis by blast
    next
      assume "gn \<in> set (fst (create_loop d (book_add used a) cs g'))"
      then have "\<not> book_conflict (book_add used a) gn" by (rule Cons.IH)
      then show ?thesis by (simp add: book_conflict_add)
    qed
  qed
qed

lemma create_loop_feasible: "feasible (fst (create_loop d used cs g))"
proof (induction cs arbitrary: used g)
  case Nil
  show ?case by (simp add: feasible_Nil)
next
  case (Cons c cs)
  obtain res g' where cg: "create_gene c used d g = (res, g')"
    by (cases "create_gene c used d g") auto
  show ?case
  proof (cases res)
    case None
    with Cons cg show ?thesis by simp
  next
    case (Some a)
    have "\<forall>y\<in>set (fst (create_loop d (book_add used a) cs g')).
            \<not> book_conflict (book_add used a) y"
      by (auto dest: create_loop_no_conflict)
    then have "\<forall>y\<in>set (fst (create_loop d (book_add used a) cs g')).
        (day y, hour y) = (day a, hour a) \<longrightarrow>
        faculty_id y \<noteq> faculty_id a \<and> batch_id y \<noteq> batch_id a \<and> room_id y \<noteq> room_id a"
      by (auto simp: book_conflict_add)
    with Some cg Cons.IH [of "book_add used a" g'] show ?thesis
      by (simp add: feasible_Cons split_def Let_def)
  qed
qed

lemma create_chromosome_feasible: "feasible (fst (create_chromosome d g))"
  by (simp add: create_chromosome_def split_def Let_def create_loop_feasible)

lemma crossover_feasible:
  assumes "feasible (map h p1)" "feasible (map h p2)"
  shows "feasible (map h (fst (crossover h p1 p2 g)))"
  using assms
  by (auto simp: crossover_def Let_def split_def repair_chromosome_feasible)

lemma mutate_feasible:
  assumes "feasible (map h c)"
  shows "feasible (map (fst (mutate cfg h c g)) (fst (snd (mutate cfg h c g))))"
  using assms
  by (auto simp: mutate_def Let_def split_def repair_chromosome_feasible)

text \<open>
  C1, as the source guarantees it. The chromosome the constructor returns and the
  chromosome the repair scan returns are feasible, whatever the input. Crossover
  returns a feasible chromosome when both parents are feasible, and mutation returns a
  feasible chromosome when the chromosome it is given is feasible: both can return
  their input without repairing it.
\<close>

theorem feasible_outputs:
  "feasible (fst (create_chromosome d g)) \<and>
   feasible (map h (repair_chromosome h s)) \<and>
   (feasible (map h p1) \<and> feasible (map h p2) \<longrightarrow>
      feasible (map h (fst (crossover h p1 p2 g)))) \<and>
   (feasible (map h c) \<longrightarrow>
      feasible (map (fst (mutate cfg h c g)) (fst (snd (mutate cfg h c g)))))"
  using create_chromosome_feasible repair_chromosome_feasible crossover_feasible
    mutate_feasible by blast

text \<open>
  Two feasible parents, crossed and mutated (the mutation moves the first gene to
  Monday at 4).
\<close>

theorem feasible_outputs_witness:
  "feasible (map id [gene_a, gene_b]) \<and> feasible (map id [gene_c, gene_a]) \<and>
   feasible (map id (fst (crossover id [gene_a, gene_b] [gene_c, gene_a] [0, 0, 0, 0, 3]))) \<and>
   feasible (map (fst (mutate default_config id [gene_a, gene_b] [0, 0, 0, 0, 3]))
                 (fst (snd (mutate default_config id [gene_a, gene_b] [0, 0, 0, 0, 3]))))"
proof -
  have f1: "feasible (map id [gene_a, gene_b])"
    by (simp add: feasible_def gene_a_def gene_b_def gene_at_def)
  have f2: "feasible (map id [gene_c, gene_a])"
    by (simp add: feasible_def gene_a_def gene_c_def gene_at_def)
  show ?thesis
    using f1 f2
      feasible_outputs [of _ "[0, 0, 0, 0, 3]" id _ "[gene_a, gene_b]" "[gene_c, gene_a]"
        "[gene_a, gene_b]" default_config]
    by blast
qed

text \<open>
  Crossover gives back its first parent when the shorter parent has fewer than two
  genes: a first parent that books one slot twice comes back as it is.
\<close>

theorem feasible_outputs_counterexample:
  "fst (crossover id [gene_a, gene_a] [gene_b] []) = [gene_a, gene_a] \<and>
   \<not> feasible (map id (fst (crossover id [gene_a, gene_a] [gene_b] [])))"
  by (simp add: crossover_def feasible_def)

section \<open>Laboratories and lecture rooms\<close>

lemma find_distinct:
  "distinct (map f xs) \<Longrightarrow> x \<in> set xs \<Longrightarrow> find (\<lambda>y. f y = f x) xs = Some x"
  by (induction xs) (auto simp: image_iff)

lemma create_loop_genes:
  "gn \<in> set (fst (create_loop d used cs g)) \<Longrightarrow>
     \<exists>c\<in>set cs. subject_name gn = cls_subject_name c \<and>
        (\<exists>room\<in>set (possible_rooms c d). room_id gn = Class_ID room)"
proof (induction cs arbitrary: used g)
  case Nil
  then show ?case by simp
next
  case (Cons c cs)
  obtain res g' where cg: "create_gene c used d g = (res, g')"
    by (cases "create_gene c used d g") auto
  show ?case
  proof (cases res)
    case None
    with Cons cg show ?thesis by auto
  next
    case (Some a)
    with Cons.prems cg have "gn = a \<or> gn \<in> set (fst (create_loop d (book_add used a) cs g'))"
      by (auto simp: split_def Let_def)
    then show ?thesis
    proof
      assume "gn = a"
      with cg Some create_gene_Some [of c used d g a g'] show ?thesis by auto
    next
      assume "gn \<in> set (fst (create_loop d (book_add used a) cs g'))"
      from Cons.IH [OF this] show ?thesis by auto
    qed
  qed
qed

lemma create_chromosome_genes:
  assumes "gn \<in> set (fst (create_chromosome d g))"
  shows "\<exists>c\<in>set (classes_to_schedule d). subject_name gn = cls_subject_name c \<and>
        (\<exists>room\<in>set (possible_rooms c d). room_id gn = Class_ID room)"
proof -
  let ?cs = "map snd (sort_key fst (zip (fst (sort_keys (classes_to_schedule d) g))
                (classes_to_schedule d)))"
  from assms have "gn \<in> set (fst (create_loop d empty_book ?cs (snd (sort_keys (classes_to_schedule d) g))))"
    by (simp add: create_chromosome_def split_def Let_def)
  from create_loop_genes [OF this] obtain c where c: "c \<in> set ?cs"
    and gn: "subject_name gn = cls_subject_name c \<and>
        (\<exists>room\<in>set (possible_rooms c d). room_id gn = Class_ID room)"
    by blast
  from c have "c \<in> set (classes_to_schedule d)"
    by (auto dest: set_zip_rightD)
  with gn show ?thesis by blast
qed

lemma assign_subject_typed:
  assumes "assign_subject sdf fsm st pair = Inr st'" "\<forall>c\<in>set (ps_classes st). typed sdf c"
  shows "\<forall>c\<in>set (ps_classes st'). typed sdf c"
  using assms
  by (auto simp: assign_subject_def Let_def typed_def split: option.splits if_splits)

lemma fold_err_typed:
  assumes "fold_err (assign_subject sdf fsm) st pairs = Inr st'" "\<forall>c\<in>set (ps_classes st). typed sdf c"
  shows "\<forall>c\<in>set (ps_classes st'). typed sdf c"
  using assms
proof (induction pairs arbitrary: st)
  case Nil
  then show ?case by simp
next
  case (Cons p pairs)
  from Cons.prems(1) obtain st1 where st1: "assign_subject sdf fsm st p = Inr st1"
    and rest: "fold_err (assign_subject sdf fsm) st1 pairs = Inr st'"
    by (auto split: sum.splits)
  from assign_subject_typed [OF st1 Cons.prems(2)] Cons.IH [OF rest] show ?case by blast
qed

lemma prepare_data_typed:
  assumes "prepare_data bdf cdf fdf sdf = Inr d"
  shows "(\<forall>c\<in>set (classes_to_schedule d). typed sdf c) \<and>
         labs d = filter (\<lambda>r. Room_Type r = ''Laboratory'') cdf \<and>
         lecture_halls d = filter (\<lambda>r. Room_Type r \<noteq> ''Laboratory'') cdf"
proof -
  from assms obtain st where st: "prepare_loop fdf sdf (batch_subject_pairs bdf) = Inr st"
    and d: "d = \<lparr>labs = filter (\<lambda>r. Room_Type r = ''Laboratory'') cdf,
               lecture_halls = filter (\<lambda>r. Room_Type r \<noteq> ''Laboratory'') cdf,
               faculty_subject_map = fst (faculty_maps fdf),
               classes_to_schedule = ps_classes st,
               batch_subject_faculty_map = ps_map st,
               faculty_workload = ps_workload st\<rparr>"
    by (auto simp: prepare_data_def split: sum.splits)
  have "\<forall>c\<in>set (ps_classes st). typed sdf c"
    using fold_err_typed [OF st [unfolded prepare_loop_def]]
    by (simp add: initial_prep_def)
  with d show ?thesis by simp
qed

lemma constructor_lab_rule:
  assumes dist: "distinct (map Class_ID cdf)"
    and pd: "prepare_data bdf cdf fdf sdf = Inr d"
    and gn: "gn \<in> set (fst (create_chromosome d g))"
  shows "lab_rule sdf cdf gn"
proof -
  from create_chromosome_genes [OF gn] obtain c room where
    c: "c \<in> set (classes_to_schedule d)" and sn: "subject_name gn = cls_subject_name c"
    and room: "room \<in> set (possible_rooms c d)" and rid: "room_id gn = Class_ID room"
    by blast
  from prepare_data_typed [OF pd] c obtain details where
    details: "find (\<lambda>s. s_name s = cls_subject_name c) sdf = Some details"
    and ty: "cls_subject_type c = s_type details"
    and labs: "labs d = filter (\<lambda>r. Room_Type r = ''Laboratory'') cdf"
    and halls: "lecture_halls d = filter (\<lambda>r. Room_Type r \<noteq> ''Laboratory'') cdf"
    unfolding typed_def by blast
  from room labs halls have in_cdf: "room \<in> set cdf"
    and kind: "(cls_subject_type c = ''Lab'') = (Room_Type room = ''Laboratory'')"
    by (auto simp: possible_rooms_def split: if_splits)
  from find_distinct [OF dist in_cdf]
  have "find (\<lambda>r. Class_ID r = room_id gn) cdf = Some room" by (simp add: rid)
  with details sn ty kind show ?thesis by (simp add: lab_rule_def)
qed

lemma repair_chromosome_subset: "set (repair_chromosome h c) \<subseteq> set c"
  using repair_loop_subset [of h empty_book c] by (simp add: repair_chromosome_def)

lemma crossover_subset: "set (fst (crossover h p1 p2 g)) \<subseteq> set p1 \<union> set p2"
proof (cases "p1 = [] \<or> p2 = [] \<or> min (length p1) (length p2) < 2")
  case True
  then show ?thesis by (auto simp: crossover_def Let_def)
next
  case False
  have child: "set (take a p1 @ drop a (take b p2) @ drop b p1) \<subseteq> set p1 \<union> set p2" for a b
    using set_take_subset [of a p1] set_drop_subset [of a "take b p2"]
      set_take_subset [of b p2] set_drop_subset [of b p1]
    by auto
  from False obtain a b where
    "fst (crossover h p1 p2 g) = repair_chromosome h (take a p1 @ drop a (take b p2) @ drop b p1)"
    by (simp add: crossover_def Let_def split_def)
  with repair_chromosome_subset [of h "take a p1 @ drop a (take b p2) @ drop b p1"] child [of a b]
  show ?thesis by auto
qed

lemma mutate_subset: "set (fst (snd (mutate cfg h c g))) \<subseteq> set c"
  by (simp add: mutate_def Let_def split_def repair_chromosome_subset)

lemma mutate_fields:
  "room_id (fst (mutate cfg h c g) r) = room_id (h r) \<and>
   subject_name (fst (mutate cfg h c g) r) = subject_name (h r) \<and>
   batch_id (fst (mutate cfg h c g) r) = batch_id (h r) \<and>
   faculty_id (fst (mutate cfg h c g) r) = faculty_id (h r)"
  by (simp add: mutate_def Let_def split_def)

lemma lab_rule_fields:
  "room_id a = room_id b \<Longrightarrow> subject_name a = subject_name b \<Longrightarrow>
     lab_rule sdf cdf a = lab_rule sdf cdf b"
  by (auto simp: lab_rule_def split: option.splits)

lemma lab_pd: "prepare_data lab_batches_df lab_rooms_df lab_faculty_df lab_subjects_df = Inr lab_data"
proof -
  have pairs: "batch_subject_pairs lab_batches_df =
      [(hd lab_batches_df, ''Prog''), (hd lab_batches_df, ''ProgLab'')]"
    by (simp add: batch_subject_pairs_def lab_batches_df_def subject_list_def strip_def is_space_def)
  have maps: "faculty_maps lab_faculty_df =
      ([(''Prog'', [''T1'']), (''ProgLab'', [''T1''])],
       [''T1'' \<mapsto> \<lparr>max_hours = 20, current_hours = 0\<rparr>])"
    by (simp add: faculty_maps_def faculty_step_def lab_faculty_df_def subject_list_def strip_def
        is_space_def)
  show ?thesis
    unfolding prepare_data_def pairs
    by (simp add: maps prepare_loop_def initial_prep_def assign_subject_def dict_get_def
        calculate_hours_per_week_def batch_id_of_def lab_batches_df_def lab_subjects_df_def
        lab_rooms_df_def lab_data_def lab_class_def Let_def eval_nat_numeral)
qed

text \<open>
  C8. With classroom identifiers that are distinct, every gene of a chromosome that the
  constructor builds from the result of \<open>prepare_data\<close> obeys the room rule: its subject
  is of type Lab exactly when its room is of type Laboratory. Repair, crossover and
  mutation keep the rule for the genes of the chromosomes they return, and mutation
  leaves the room and the subject of every gene object as they are.
\<close>

theorem lab_rooms:
  assumes "distinct (map Class_ID classrooms_df)"
    and "prepare_data batches_df classrooms_df faculty_df subjects_df = Inr d"
  shows
    "(\<forall>gn\<in>set (fst (create_chromosome d g)). lab_rule subjects_df classrooms_df gn) \<and>
     ((\<forall>r\<in>set c. lab_rule subjects_df classrooms_df (h r)) \<longrightarrow>
        (\<forall>r\<in>set (repair_chromosome h c). lab_rule subjects_df classrooms_df (h r))) \<and>
     ((\<forall>r\<in>set p1 \<union> set p2. lab_rule subjects_df classrooms_df (h r)) \<longrightarrow>
        (\<forall>r\<in>set (fst (crossover h p1 p2 g')). lab_rule subjects_df classrooms_df (h r))) \<and>
     ((\<forall>r\<in>set c. lab_rule subjects_df classrooms_df (h r)) \<longrightarrow>
        (\<forall>r\<in>set (fst (snd (mutate cfg h c g'))).
            lab_rule subjects_df classrooms_df (fst (mutate cfg h c g') r))) \<and>
     (\<forall>r. room_id (fst (mutate cfg h c g') r) = room_id (h r) \<and>
          subject_name (fst (mutate cfg h c g') r) = subject_name (h r))"
proof -
  have constructor: "\<forall>gn\<in>set (fst (create_chromosome d g)). lab_rule subjects_df classrooms_df gn"
    using constructor_lab_rule [OF assms] by blast
  have repair: "(\<forall>r\<in>set c. lab_rule subjects_df classrooms_df (h r)) \<longrightarrow>
        (\<forall>r\<in>set (repair_chromosome h c). lab_rule subjects_df classrooms_df (h r))"
    using repair_chromosome_subset [of h c] by blast
  have cross: "(\<forall>r\<in>set p1 \<union> set p2. lab_rule subjects_df classrooms_df (h r)) \<longrightarrow>
        (\<forall>r\<in>set (fst (crossover h p1 p2 g')). lab_rule subjects_df classrooms_df (h r))"
    using crossover_subset [of h p1 p2 g'] by blast
  have same: "lab_rule subjects_df classrooms_df (fst (mutate cfg h c g') r)
      = lab_rule subjects_df classrooms_df (h r)" for r
    by (rule lab_rule_fields) (simp_all add: mutate_fields)
  have mut: "(\<forall>r\<in>set c. lab_rule subjects_df classrooms_df (h r)) \<longrightarrow>
        (\<forall>r\<in>set (fst (snd (mutate cfg h c g'))).
            lab_rule subjects_df classrooms_df (fst (mutate cfg h c g') r))"
    using mutate_subset [of cfg h c g'] same by blast
  have fields: "\<forall>r. room_id (fst (mutate cfg h c g') r) = room_id (h r) \<and>
          subject_name (fst (mutate cfg h c g') r) = subject_name (h r)"
    using mutate_fields [of cfg h c g'] by simp
  show ?thesis
    by (rule conjI [OF constructor conjI [OF repair conjI [OF cross conjI [OF mut fields]]]])
qed

text \<open>
  The lab routing instance: the four ProgLab sessions are placed in the laboratory R1,
  the two Prog sessions in the lecture hall R2.
\<close>

theorem lab_rooms_witness:
  "distinct (map Class_ID lab_rooms_df) \<and>
   prepare_data lab_batches_df lab_rooms_df lab_faculty_df lab_subjects_df = Inr lab_data \<and>
   map (\<lambda>gn. (subject_name gn, room_id gn))
       (fst (create_chromosome lab_data [3, 1, 4, 1, 5, 9, 2, 6, 5, 3, 5, 9])) =
     [(''ProgLab'', ''R1''), (''ProgLab'', ''R1''), (''ProgLab'', ''R1''), (''ProgLab'', ''R1''),
      (''Prog'', ''R2''), (''Prog'', ''R2'')] \<and>
   list_all (lab_rule lab_subjects_df lab_rooms_df)
       (fst (create_chromosome lab_data [3, 1, 4, 1, 5, 9, 2, 6, 5, 3, 5, 9]))"
proof -
  have h1: "distinct (map Class_ID lab_rooms_df)"
    by (simp add: lab_rooms_df_def)
  have placed: "map (\<lambda>gn. (subject_name gn, room_id gn))
       (fst (create_chromosome lab_data [3, 1, 4, 1, 5, 9, 2, 6, 5, 3, 5, 9])) =
     [(''ProgLab'', ''R1''), (''ProgLab'', ''R1''), (''ProgLab'', ''R1''), (''ProgLab'', ''R1''),
      (''Prog'', ''R2''), (''Prog'', ''R2'')]"
    by code_simp
  have "list_all (lab_rule lab_subjects_df lab_rooms_df)
       (fst (create_chromosome lab_data [3, 1, 4, 1, 5, 9, 2, 6, 5, 3, 5, 9]))"
    unfolding list_all_iff
    by (rule lab_rooms [OF h1 lab_pd, where g = "[3, 1, 4, 1, 5, 9, 2, 6, 5, 3, 5, 9]",
          THEN conjunct1])
  with h1 lab_pd placed show ?thesis by blast
qed

section \<open>Gene objects shared between chromosomes\<close>

text \<open>
  C10 fails on the source. \<open>mutate\<close> copies the list of its chromosome and then writes to
  the gene objects, which the parents, the elite and the saved best chromosome share.
  First the operator alone: the store holds \<open>gene_a\<close> and \<open>gene_b\<close>, the chromosome
  \<open>[0, 1]\<close> is a member of the population; mutating it returns the child \<open>[0]\<close>, and
  the member now reads \<open>gene_b, gene_b\<close>. Then a whole run of one generation with one
  chromosome: the best chromosome is saved with fitness \<open>1/31\<close>, the mutation of the
  child moves its first gene, and the chromosome the run returns books Monday at 4
  twice, with fitness \<open>1/3001\<close>.
\<close>

theorem shared_genes_modified:
  "map (\<lambda>x. if x = (0::nat) then gene_a else gene_b) [0, 1] = [gene_a, gene_b] \<and>
   fst (snd (mutate default_config (\<lambda>x. if x = (0::nat) then gene_a else gene_b) [0, 1]
               [0, 0, 0, 0, 3])) = [0] \<and>
   map (fst (mutate default_config (\<lambda>x. if x = (0::nat) then gene_a else gene_b) [0, 1]
               [0, 0, 0, 0, 3])) [0, 1] = [gene_b, gene_b] \<and>
   (case run_evolution (small_config 1) tiny_data True (\<lambda>_. blank_gene) 0
           ([0, 0, 0, 14] @ [0, 0, 0, 0, 0, 0, 0, 0, 3]) of
      Inl e \<Rightarrow> False
    | Inr r \<Rightarrow>
        er_chromosome r = [0, 1] \<and>
        map (er_store r) (er_chromosome r) = [gene_b, gene_b] \<and>
        \<not> feasible (map (er_store r) (er_chromosome r)) \<and>
        er_fitness_history r = [1 / 31] \<and>
        calculate_fitness (er_store r) (er_chromosome r) = 1 / 3001)"
  by code_simp

section \<open>Two runs with one seed\<close>

text \<open>
  C2 fails on the source. \<open>run_evolution\<close> raises the mutation rate in the \<open>GAConfig\<close>
  object of the optimizer, which every later run starts from. The first run below
  stagnates for 22 generations and leaves the rate at \<open>11/500\<close>; the second run, from
  that configuration and with the same outputs of the generator, mutates where the
  first did not, and returns another schedule and another fitness history.
\<close>

theorem same_seed_differs:
  "run_single_ga (small_config 22) tiny_batches tiny_rooms tiny_faculty tiny_subjects True
       (\<lambda>_. blank_gene) 0 seed_draws =
     Inr \<lparr>ga_schedule = [gene_a, gene_b], ga_fitness = 1 / 31,
          ga_fitness_history = replicate 22 (1 / 31),
          ga_config = (small_config 22)\<lparr>mutation_rate := 11 / 500\<rparr>\<rparr> \<and>
   run_single_ga ((small_config 22)\<lparr>mutation_rate := 11 / 500\<rparr>)
       tiny_batches tiny_rooms tiny_faculty tiny_subjects True (\<lambda>_. blank_gene) 0 seed_draws =
     Inr \<lparr>ga_schedule = [gene_a, gene_at ''Monday'' 2], ga_fitness = 1,
          ga_fitness_history = [1 / 31, 1],
          ga_config = (small_config 22)\<lparr>mutation_rate := 11 / 500\<rparr>\<rparr>"
  by code_simp

section \<open>The generations of a run\<close>

lemma generation_history:
  assumes "generation st = Inr (stop, st')"
  shows "\<exists>f. es_fitness_history st' = es_fitness_history st @ [f] \<and> (stop \<longleftrightarrow> f \<ge> 99 / 100)"
proof -
  let ?pf = "sort_key (\<lambda>x. - fst x)
      (map (\<lambda>chromo. (calculate_fitness (es_store st) chromo, chromo)) (es_population st))"
  from assms obtain f best_now rest where pf: "?pf = (f, best_now) # rest"
    by (cases ?pf) (auto simp: generation_def Let_def)
  show ?thesis
  proof (cases "f \<ge> 99 / 100")
    case True
    with assms pf show ?thesis
      by (auto simp: generation_def Let_def)
  next
    case False
    with assms pf show ?thesis
      by (auto simp: generation_def Let_def split: sum.splits)
  qed
qed

lemma evolve_history:
  assumes "evolve n st = Inr st'"
  shows "\<exists>hs. es_fitness_history st' = es_fitness_history st @ hs \<and> length hs \<le> n \<and>
           (0 < n \<longrightarrow> hs \<noteq> []) \<and>
           (\<forall>i. Suc i < length hs \<longrightarrow> hs ! i < 99 / 100) \<and>
           (length hs < n \<longrightarrow> last hs \<ge> 99 / 100)"
  using assms
proof (induction n arbitrary: st)
  case 0
  then show ?case by simp
next
  case (Suc n)
  from Suc.prems obtain stop st1 where gen: "generation st = Inr (stop, st1)"
    and rest: "if stop then st' = st1 else evolve n st1 = Inr st'"
    by (auto split: sum.splits if_splits)
  from generation_history [OF gen] obtain f where
    h1: "es_fitness_history st1 = es_fitness_history st @ [f]" and stop: "stop \<longleftrightarrow> f \<ge> 99 / 100"
    by blast
  show ?case
  proof (cases stop)
    case True
    with rest h1 stop show ?thesis
      by (intro exI [of _ "[f]"]) simp
  next
    case False
    with rest have "evolve n st1 = Inr st'" by simp
    from Suc.IH [OF this] obtain hs where
      hs: "es_fitness_history st' = es_fitness_history st1 @ hs" "length hs \<le> n"
        "\<forall>i. Suc i < length hs \<longrightarrow> hs ! i < 99 / 100"
        "length hs < n \<longrightarrow> last hs \<ge> 99 / 100" "0 < n \<longrightarrow> hs \<noteq> []"
      by blast
    have lt: "f < 99 / 100" using False stop by simp
    have nth: "\<forall>i. Suc i < length (f # hs) \<longrightarrow> (f # hs) ! i < 99 / 100"
    proof (intro allI impI)
      fix i assume "Suc i < length (f # hs)"
      then show "(f # hs) ! i < 99 / 100"
        using hs(3) lt by (cases i) auto
    qed
    have last: "length (f # hs) < Suc n \<longrightarrow> last (f # hs) \<ge> 99 / 100"
      using hs(4) hs(5) by auto
    from hs(1) h1 have "es_fitness_history st' = es_fitness_history st @ (f # hs)" by simp
    with hs(2) nth last show ?thesis
      by (intro exI [of _ "f # hs"]) simp
  qed
qed

text \<open>
  C6, as the source does it. \<open>run_evolution\<close> takes no cancellation signal. A run that
  returns has performed at least one generation and at most \<open>max_generations\<close>; every
  generation but the last had a best fitness below 0.99, and the run ends before
  \<open>max_generations\<close> generations only after a generation whose best fitness is at
  least 0.99. (The fitness history has one entry per generation performed.)
\<close>

theorem generations_performed:
  assumes "run_evolution cfg d db h free g = Inr r"
  shows "er_fitness_history r \<noteq> [] \<and>
         int (length (er_fitness_history r)) \<le> max_generations cfg \<and>
         (\<forall>i. Suc i < length (er_fitness_history r) \<longrightarrow> er_fitness_history r ! i < 99 / 100) \<and>
         (int (length (er_fitness_history r)) < max_generations cfg \<longrightarrow>
            last (er_fitness_history r) \<ge> 99 / 100)"
proof -
  obtain population h0 free0 g0 where
    init: "initial_population (nat (population_size cfg)) d h free g = (population, h0, free0, g0)"
    by (cases "initial_population (nat (population_size cfg)) d h free g") auto
  let ?st0 = "\<lparr>es_store = h0, es_rng = g0, es_config = cfg, es_population = population,
                 es_population_fitness = None, es_best_fitness = 0, es_best_chromosome = None,
                 es_without_improvement = 0, es_fitness_history = []\<rparr>"
  from assms init obtain st where ev: "evolve (nat (max_generations cfg)) ?st0 = Inr st"
    and hist: "er_fitness_history r = es_fitness_history st"
    and ret: "\<not> falsy (es_best_chromosome st) \<or> es_population_fitness st \<noteq> None"
    by (auto simp: run_evolution_def split: sum.splits if_splits option.splits list.splits)
  from evolve_history [OF ev] obtain hs where
    hs: "es_fitness_history st = hs" "length hs \<le> nat (max_generations cfg)"
      "0 < nat (max_generations cfg) \<longrightarrow> hs \<noteq> []"
      "\<forall>i. Suc i < length hs \<longrightarrow> hs ! i < 99 / 100"
      "length hs < nat (max_generations cfg) \<longrightarrow> last hs \<ge> 99 / 100"
    by auto
  have pos: "0 < nat (max_generations cfg)"
  proof (rule ccontr)
    assume "\<not> 0 < nat (max_generations cfg)"
    then have "nat (max_generations cfg) = 0" by simp
    with ev have "st = ?st0" by simp
    with ret show False by (simp add: falsy_def)
  qed
  with hs hist show ?thesis by auto
qed

text \<open>
  A run of two generations on the minimal instance in which nothing improves: both
  generations are performed.
\<close>

lemma quiet_run:
  "(case run_evolution (small_config 2) tiny_data True (\<lambda>_. blank_gene) 0
           ([0, 0, 0, 14] @ quiet_generation @ quiet_generation) of
      Inl e \<Rightarrow> False
    | Inr r \<Rightarrow> er_fitness_history r = [1 / 31, 1 / 31] \<and> er_chromosome r = [0, 1])"
  by code_simp

theorem generations_performed_witness:
  "\<exists>r. run_evolution (small_config 2) tiny_data True (\<lambda>_. blank_gene) 0
           ([0, 0, 0, 14] @ quiet_generation @ quiet_generation) = Inr r \<and>
        er_fitness_history r = [1 / 31, 1 / 31] \<and>
        int (length (er_fitness_history r)) \<le> max_generations (small_config 2) \<and>
        (\<forall>i. Suc i < length (er_fitness_history r) \<longrightarrow> er_fitness_history r ! i < 99 / 100)"
proof -
  from quiet_run obtain r where
    run: "run_evolution (small_config 2) tiny_data True (\<lambda>_. blank_gene) 0
           ([0, 0, 0, 14] @ quiet_generation @ quiet_generation) = Inr r"
    and hist: "er_fitness_history r = [1 / 31, 1 / 31]"
    by (auto split: sum.splits)
  from generations_performed [OF run] run hist show ?thesis by blast
qed

text \<open>
  The claim fails: let a signal be any predicate on the generations, set at the top of
  generation \<open>k\<close>; the claim lets the run perform no generation from \<open>k\<close> on. The run
  above performs its two generations whatever the signal, also for one that is set
  from generation 0 on.
\<close>

theorem no_cancellation_counterexample:
  "\<not> (\<forall>signal :: nat \<Rightarrow> bool. \<forall>k. signal k \<longrightarrow>
        (case run_evolution (small_config 2) tiny_data True (\<lambda>_. blank_gene) 0
                ([0, 0, 0, 14] @ quiet_generation @ quiet_generation) of
           Inl e \<Rightarrow> True
         | Inr r \<Rightarrow> length (er_fitness_history r) \<le> k))"
proof
  assume claim: "\<forall>signal :: nat \<Rightarrow> bool. \<forall>k. signal k \<longrightarrow>
        (case run_evolution (small_config 2) tiny_data True (\<lambda>_. blank_gene) 0
                ([0, 0, 0, 14] @ quiet_generation @ quiet_generation) of
           Inl e \<Rightarrow> True
         | Inr r \<Rightarrow> length (er_fitness_history r) \<le> k)"
  from quiet_run obtain r where
    run: "run_evolution (small_config 2) tiny_data True (\<lambda>_. blank_gene) 0
           ([0, 0, 0, 14] @ quiet_generation @ quiet_generation) = Inr r"
    and hist: "er_fitness_history r = [1 / 31, 1 / 31]"
    by (auto split: sum.splits)
  from claim have "(\<lambda>_. True) 0 \<longrightarrow>
        (case run_evolution (small_config 2) tiny_data True (\<lambda>_. blank_gene) 0
                ([0, 0, 0, 14] @ quiet_generation @ quiet_generation) of
           Inl e \<Rightarrow> True
         | Inr r \<Rightarrow> length (er_fitness_history r) \<le> 0)"
    by blast
  with run hist show False by simp
qed

end
